theory Spec2Isabelle
  imports Complex_Main "HOL-Library.Sublist"
begin

section \<open>Data model\<close>

text \<open>
  A Turn is the dictionary \<^verbatim>\<open>{"role": ..., "content": ...}\<close> that all three agent variants
  (UWAgent, Lvl3Agent, Agent_Pstorage) append to \<^verbatim>\<open>conversation_history\<close>.
\<close>

datatype role = User | Assistant | System

record turn =
  role :: role
  content :: string

text \<open>
  The values \<^verbatim>\<open>json.loads\<close> produces: \<^verbatim>\<open>None\<close>, booleans, numbers, strings, lists and
  dictionaries (an association list; lookup returns the first binding of a key).
\<close>

datatype json =
    JNull
  | JBool bool
  | JNum rat
  | JStr string
  | JArr "json list"
  | JObj "(string \<times> json) list"

text \<open>The exceptions the modelled code raises or lets through.\<close>

datatype fault =
    FileNotFoundError string
  | ValueError string
  | JSONDecodeError string
  | RecursionError string
  | KeyError string
  | TypeError
  | AttributeError
  | ToolError string

text \<open>\<^verbatim>\<open>except json.JSONDecodeError\<close> catches this exception and no other.\<close>

fun is_JSONDecodeError :: "fault \<Rightarrow> bool" where
  "is_JSONDecodeError (JSONDecodeError msg) = True"
| "is_JSONDecodeError f = False"

subsection \<open>Python string and dictionary operations\<close>

text \<open>
  Strings are lists of characters with code points below 256. \<^verbatim>\<open>str.strip\<close> removes
  white space at both ends: the characters for which \<^verbatim>\<open>str.isspace\<close> holds, which below
  256 are the ASCII ones, U+0085 and U+00A0.
\<close>

definition isspace :: "char \<Rightarrow> bool" where
  "isspace c = (c \<in> set [CHR 0x09, CHR 0x0A, CHR 0x0B, CHR 0x0C, CHR 0x0D,
                         CHR 0x1C, CHR 0x1D, CHR 0x1E, CHR 0x1F, CHR 0x20,
                         CHR 0x85, CHR 0xA0])"

definition strip :: "string \<Rightarrow> string" where
  "strip s = rev (dropWhile isspace (rev (dropWhile isspace s)))"

definition startswith :: "string \<Rightarrow> string \<Rightarrow> bool" where
  "startswith s p = (take (length p) s = p)"

definition endswith :: "string \<Rightarrow> string \<Rightarrow> bool" where
  "endswith s p = (take (length p) (rev s) = rev p)"

text \<open>\<^verbatim>\<open>str.lower\<close> on the ASCII letters; every other character is left as it is.\<close>

definition ascii_lower :: "char \<Rightarrow> char" where
  "ascii_lower c =
     (case map_of (zip ''ABCDEFGHIJKLMNOPQRSTUVWXYZ'' ''abcdefghijklmnopqrstuvwxyz'') c of
        Some d \<Rightarrow> d
      | None \<Rightarrow> c)"

definition lower :: "string \<Rightarrow> string" where
  "lower s = map ascii_lower s"

text \<open>\<^verbatim>\<open>needle in haystack\<close> for strings.\<close>

fun contains :: "string \<Rightarrow> string \<Rightarrow> bool" where
  "contains [] needle = (needle = [])"
| "contains (c # cs) needle = (startswith (c # cs) needle \<or> contains cs needle)"

text \<open>\<^verbatim>\<open>sep.join(parts)\<close>.\<close>

fun join :: "string \<Rightarrow> string list \<Rightarrow> string" where
  "join sep [] = []"
| "join sep [p] = p"
| "join sep (p # q # ps) = p @ sep @ join sep (q # ps)"

fun is_dict :: "json \<Rightarrow> bool" where
  "is_dict (JObj d) = True"
| "is_dict v = False"

text \<open>\<^verbatim>\<open>key in value\<close> for a value already known to be a dictionary.\<close>

fun has_key :: "json \<Rightarrow> string \<Rightarrow> bool" where
  "has_key (JObj d) k = (map_of d k \<noteq> None)"
| "has_key v k = False"

text \<open>
  \<^verbatim>\<open>value[key]\<close> with a string key: a dictionary raises KeyError on a missing key, every
  other JSON value raises TypeError.
\<close>

fun subscript :: "json \<Rightarrow> string \<Rightarrow> fault + json" where
  "subscript (JObj d) k = (case map_of d k of Some v \<Rightarrow> Inr v | None \<Rightarrow> Inl (KeyError k))"
| "subscript v k = Inl TypeError"

text \<open>\<^verbatim>\<open>d.get(key)\<close> on a dictionary: \<^verbatim>\<open>None\<close> for a missing key.\<close>

fun dict_get :: "(string \<times> json) list \<Rightarrow> string \<Rightarrow> json" where
  "dict_get d k = (case map_of d k of Some v \<Rightarrow> v | None \<Rightarrow> JNull)"

text \<open>Python truthiness of a JSON value (\<^verbatim>\<open>if task_id:\<close>).\<close>

fun truthy :: "json \<Rightarrow> bool" where
  "truthy JNull = False"
| "truthy (JBool b) = b"
| "truthy (JNum n) = (n \<noteq> 0)"
| "truthy (JStr s) = (s \<noteq> [])"
| "truthy (JArr xs) = (xs \<noteq> [])"
| "truthy (JObj d) = (d \<noteq> [])"

section \<open>External collaborators and process state\<close>

text \<open>
  The reasoning engine, the JSON library and the tool transport are outside the
  repository; the model takes them as parameters.
  \<^item> \<open>ollama_run n prompt\<close>: the decoded standard output of the \<open>n\<close>-th
    \<^verbatim>\<open>ollama run\<close> subprocess of the process, given \<open>prompt\<close> on its input. The index makes
    the engine free to answer the same prompt differently each time.
  \<^item> \<open>json_loads\<close>: \<^verbatim>\<open>json.loads\<close> on a string, with the exception it raises:
    JSONDecodeError for a text that is not JSON; ValueError or RecursionError for a
    number or a nesting beyond the interpreter's limits.
  \<^item> \<open>json_dumps\<close>: \<^verbatim>\<open>json.dumps\<close>.
  \<^item> \<open>py_str\<close>: how an f-string renders a value that is not a string.
  \<^item> \<open>client_call_tool n name args\<close>: the \<open>n\<close>-th \<^verbatim>\<open>client.call_tool\<close> request of the process,
    with the text parts of its result joined by newlines, or the exception it raises.
  \<^item> \<open>server_path\<close>, \<open>server_path_exists\<close>: the absolute path of \<^verbatim>\<open>mcp_server.py\<close> beside
    the agent, and whether a file is there.
  \<^item> \<open>SYSTEM_PROMPT\<close>: the variant's system prompt.
\<close>

record env =
  SYSTEM_PROMPT :: string
  ollama_run :: "nat \<Rightarrow> string \<Rightarrow> string"
  json_loads :: "string \<Rightarrow> fault + json"
  json_dumps :: "json \<Rightarrow> string"
  py_str :: "json \<Rightarrow> string"
  client_call_tool :: "nat \<Rightarrow> json \<Rightarrow> json \<Rightarrow> fault + string"
  server_path :: string
  server_path_exists :: bool

text \<open>
  The process state: the global \<^verbatim>\<open>conversation_history\<close>, the number of engine
  invocations so far, and the log of the requests sent through \<^verbatim>\<open>client.call_tool\<close>
  (oldest first). The two counters are ghost state: the code does not keep them.
\<close>

record state =
  conversation_history :: "turn list"
  llm_calls :: nat
  tool_calls :: "(json \<times> json) list"

definition append_turn :: "role \<Rightarrow> string \<Rightarrow> state \<Rightarrow> state" where
  "append_turn r c s =
     s\<lparr>conversation_history := conversation_history s @ [\<lparr>role = r, content = c\<rparr>]\<rparr>"

text \<open>An f-string field: a string as it is, any other value through \<open>py_str\<close>.\<close>

definition fmt :: "env \<Rightarrow> json \<Rightarrow> string" where
  "fmt e v = (case v of JStr s \<Rightarrow> s | _ \<Rightarrow> py_str e v)"

section \<open>Shared helpers of the three agents\<close>

fun role_upper :: "role \<Rightarrow> string" where
  "role_upper User = ''USER''"
| "role_upper Assistant = ''ASSISTANT''"
| "role_upper System = ''SYSTEM''"

definition build_prompt :: "turn list \<Rightarrow> string" where
  "build_prompt messages =
     join ''\<newline>''
       (map (\<lambda>m. role_upper (role m) @ '':\<newline>'' @ content m @ ''\<newline>'') messages
        @ [''ASSISTANT:\<newline>''])"

definition call_llm :: "env \<Rightarrow> turn list \<Rightarrow> state \<Rightarrow> string \<times> state" where
  "call_llm e messages s =
     (strip (ollama_run e (llm_calls s) (build_prompt messages)),
      s\<lparr>llm_calls := Suc (llm_calls s)\<rparr>)"

text \<open>
  \<^verbatim>\<open>_try_parse_tool_request\<close> (identical in Lvl3Agent and Agent_Pstorage). The \<^verbatim>\<open>try\<close>
  catches JSONDecodeError; any other exception of \<^verbatim>\<open>json.loads\<close> leaves the function.
\<close>

definition try_parse_tool_request :: "env \<Rightarrow> string \<Rightarrow> fault + json option" where
  "try_parse_tool_request e maybe_json =
     (let txt = strip maybe_json in
      if \<not> (startswith txt ''{'' \<and> endswith txt ''}'') then Inr None
      else
        (case json_loads e txt of
           Inl f \<Rightarrow> if is_JSONDecodeError f then Inr None else Inl f
         | Inr parsed \<Rightarrow>
             if is_dict parsed \<and> has_key parsed ''tool'' \<and> has_key parsed ''arguments''
                \<and> (case subscript parsed ''arguments'' of Inr a \<Rightarrow> is_dict a | Inl f \<Rightarrow> False)
             then Inr (Some parsed)
             else Inr None))"

text \<open>
  \<^verbatim>\<open>_call_mcp_tool\<close> of UWAgent and Lvl3Agent: the request goes to the client; an exception
  of the client is not caught.
\<close>

definition call_mcp_tool :: "env \<Rightarrow> json \<Rightarrow> json \<Rightarrow> state \<Rightarrow> (fault + string) \<times> state" where
  "call_mcp_tool e tool_name tool_args s =
     (client_call_tool e (length (tool_calls s)) tool_name tool_args,
      s\<lparr>tool_calls := tool_calls s @ [(tool_name, tool_args)]\<rparr>)"

text \<open>
  The outcome of one pass through the body of the \<^verbatim>\<open>while step_count < max_steps\<close> loop:
  the function returned (a string, or an exception left it), or the loop goes on.
\<close>

datatype outcome = Returned "fault + string" | Continue

definition max_steps :: nat where
  "max_steps = 5"

definition safety_msg :: string where
  \<open>safety_msg =
     ''I tried too many tool steps without producing a final answer. '' @
     ''Here's what I gathered so far, but you should clarify:''\<close>

text \<open>
  The \<^verbatim>\<open>while step_count < max_steps\<close> loop of Lvl3Agent and Agent_Pstorage and the
  safety exit after it, by recursion on \<^verbatim>\<open>max_steps - step_count\<close>; \<open>body\<close> is one pass
  through the variant's loop body.
\<close>

fun while_steps :: "(state \<Rightarrow> outcome \<times> state) \<Rightarrow> nat \<Rightarrow> state \<Rightarrow> (fault + string) \<times> state" where
  "while_steps body 0 s = (Inr safety_msg, append_turn Assistant safety_msg s)"
| "while_steps body (Suc n) s =
     (case body s of
        (Returned r, s') \<Rightarrow> (r, s')
      | (Continue, s') \<Rightarrow> while_steps body n s')"

text \<open>
  The loop runs out: each of the first \<open>n\<close> passes through the body ends in
  \<open>Continue\<close>, none returns.
\<close>

fun exhausts :: "(state \<Rightarrow> outcome \<times> state) \<Rightarrow> nat \<Rightarrow> state \<Rightarrow> bool" where
  "exhausts body 0 s = True"
| "exhausts body (Suc n) s =
     (case body s of
        (Continue, s') \<Rightarrow> exhausts body n s'
      | (Returned r, s') \<Rightarrow> False)"

text \<open>The content of the system Turn that records a tool result.\<close>

definition tool_returned_text :: "env \<Rightarrow> json \<Rightarrow> string \<Rightarrow> string" where
  "tool_returned_text e tool_name tool_output =
     ''Tool '' @ [CHR 0x27] @ fmt e tool_name @ [CHR 0x27] @ '' returned:\<newline>'' @ tool_output"

text \<open>
  A recorded tool round-trip: the parsed request, its tool name and arguments, the text
  the tool returned, and the position of the request in the log of tool requests. Its
  two synthetic Turns are the assistant Turn with the request and the system Turn with
  the result.
\<close>

record round_trip =
  rt_request :: json
  rt_tool :: json
  rt_args :: json
  rt_output :: string
  rt_index :: nat

definition round_turns :: "env \<Rightarrow> round_trip \<Rightarrow> turn list" where
  "round_turns e r =
     [\<lparr>role = Assistant, content = json_dumps e (rt_request r)\<rparr>,
      \<lparr>role = System, content = tool_returned_text e (rt_tool r) (rt_output r)\<rparr>]"

text \<open>
  The recorded round-trips of a turn against the log of tool requests, pass by pass.
  \<open>start\<close> is the position of the first tool request of the pass. The recorded request
  comes after it, at most two places on; it is the logged request at its position, and
  the tool transport answered it with the recorded text. The next pass starts right
  after it.
\<close>

fun rounds_logged :: "env \<Rightarrow> (json \<times> json) list \<Rightarrow> nat \<Rightarrow> round_trip list \<Rightarrow> bool" where
  "rounds_logged e calls start [] = True"
| "rounds_logged e calls start (r # rest) =
     (subscript (rt_request r) ''tool'' = Inr (rt_tool r)
      \<and> subscript (rt_request r) ''arguments'' = Inr (rt_args r)
      \<and> start < rt_index r \<and> rt_index r \<le> start + 2 \<and> rt_index r < length calls
      \<and> calls ! rt_index r = (rt_tool r, rt_args r)
      \<and> client_call_tool e (rt_index r) (rt_tool r) (rt_args r) = Inr (rt_output r)
      \<and> rounds_logged e calls (Suc (rt_index r)) rest)"

text \<open>
  What one pass through a loop body may do to the state, with at most \<open>k\<close> tool
  requests: the log of tool requests and the history are extended; a returned answer
  is the one Turn appended; a pass that continues appends the two Turns of one
  round-trip, whose request is the last of the log.
\<close>

definition pass_effect :: "env \<Rightarrow> nat \<Rightarrow> state \<Rightarrow> outcome \<Rightarrow> state \<Rightarrow> bool" where
  "pass_effect e k s oc s' =
     (\<exists>zs hs. tool_calls s' = tool_calls s @ zs \<and> length zs \<le> k
        \<and> conversation_history s' = conversation_history s @ hs
        \<and> (case oc of
              Returned (Inr a) \<Rightarrow> hs = [\<lparr>role = Assistant, content = a\<rparr>]
            | Returned (Inl f) \<Rightarrow> True
            | Continue \<Rightarrow>
                (\<exists>r. hs = round_turns e r
                   \<and> rounds_logged e (tool_calls s') (length (tool_calls s)) [r]
                   \<and> Suc (rt_index r) = length (tool_calls s'))))"

definition final_answer :: "string \<Rightarrow> state \<Rightarrow> outcome \<times> state" where
  "final_answer model_reply s =
     (Returned (Inr (strip model_reply)), append_turn Assistant (strip model_reply) s)"

text \<open>
  The tail of the loop body in Lvl3Agent and Agent_Pstorage: the reply after the first
  tool call was itself a tool request. It is recorded in the history, executed through
  the variant's \<^verbatim>\<open>_call_mcp_tool\<close> (the parameter \<open>call\<close>), and its result recorded.
\<close>

definition chain_second_tool ::
  "env \<Rightarrow> (env \<Rightarrow> json \<Rightarrow> json \<Rightarrow> state \<Rightarrow> (fault + string) \<times> state)
     \<Rightarrow> json \<Rightarrow> state \<Rightarrow> outcome \<times> state" where
  "chain_second_tool e call parsed_tool_req_2 s =
     (let s1 = append_turn Assistant (json_dumps e parsed_tool_req_2) s in
      case subscript parsed_tool_req_2 ''tool'' of
        Inl f \<Rightarrow> (Returned (Inl f), s1)
      | Inr tool_name_2 \<Rightarrow>
          (case subscript parsed_tool_req_2 ''arguments'' of
             Inl f \<Rightarrow> (Returned (Inl f), s1)
           | Inr tool_args_2 \<Rightarrow>
               (case call e tool_name_2 tool_args_2 s1 of
                  (Inl f, s2) \<Rightarrow> (Returned (Inl f), s2)
                | (Inr tool_output_2, s2) \<Rightarrow>
                    (Continue,
                     append_turn System (tool_returned_text e tool_name_2 tool_output_2) s2))))"

section \<open>Lvl3Agent: agent_core/agent.py\<close>

definition control_instruction_lvl3 :: string where
  \<open>control_instruction_lvl3 =
     ''You are deciding what to do NEXT:\<newline>'' @
     ''- If you ALREADY have enough info to answer the user's last request, '' @
     ''  respond in FINAL_ANSWER mode (plain English, no JSON).\<newline>'' @
     ''- If you STILL NEED more info, respond in TOOL_REQUEST mode by returning '' @
     ''  STRICT JSON ONLY with {"tool": ..., "arguments": {...}}.\<newline>'' @
     ''- DO NOT include any explanation outside the JSON in TOOL_REQUEST mode.\<newline>''\<close>

definition ask_model_for_next_action_lvl3 :: "env \<Rightarrow> state \<Rightarrow> string \<times> state" where
  "ask_model_for_next_action_lvl3 e s =
     call_llm e
       ([\<lparr>role = System, content = SYSTEM_PROMPT e\<rparr>]
        @ conversation_history s
        @ [\<lparr>role = User, content = control_instruction_lvl3\<rparr>]) s"

definition followup_instruction_lvl3 :: "env \<Rightarrow> json \<Rightarrow> json \<Rightarrow> string \<Rightarrow> string" where
  \<open>followup_instruction_lvl3 e tool_name tool_args tool_output =
     ''The tool call just completed.\<newline>'' @
     ''Tool name: '' @ fmt e tool_name @ ''\<newline>'' @
     ''Tool arguments: '' @ json_dumps e tool_args @ ''\<newline>'' @
     ''Tool returned the following data (verbatim):\<newline>\<newline>'' @
     tool_output @ ''\<newline>\<newline>'' @
     ''Now decide what to do NEXT:\<newline>'' @
     ''- If you STILL need more info, respond in TOOL_REQUEST mode by returning '' @
     ''  STRICT JSON ONLY with {"tool": ..., "arguments": {...}}.\<newline>'' @
     ''- Otherwise, provide FINAL_ANSWER in plain English (no JSON).\<newline>'' @
     ''- In FINAL_ANSWER you may reference the tool result above and prior '' @
     ''  conversation, but you must not invent data you haven't seen.\<newline>'' @
     ''- If you do math, show steps.\<newline>''\<close>

definition ask_model_after_tool_lvl3 ::
  "env \<Rightarrow> json \<Rightarrow> json \<Rightarrow> string \<Rightarrow> state \<Rightarrow> string \<times> state" where
  "ask_model_after_tool_lvl3 e tool_name tool_args tool_output s =
     call_llm e
       ([\<lparr>role = System, content = SYSTEM_PROMPT e\<rparr>]
        @ conversation_history s
        @ [\<lparr>role = Assistant,
             content = json_dumps e (JObj [(''tool'', tool_name), (''arguments'', tool_args)])\<rparr>,
           \<lparr>role = System,
             content = followup_instruction_lvl3 e tool_name tool_args tool_output\<rparr>]) s"

definition loop_body_lvl3 :: "env \<Rightarrow> state \<Rightarrow> outcome \<times> state" where
  "loop_body_lvl3 e s =
     (case ask_model_for_next_action_lvl3 e s of (model_reply, s1) \<Rightarrow>
      (case try_parse_tool_request e model_reply of
         Inl f \<Rightarrow> (Returned (Inl f), s1)
       | Inr None \<Rightarrow> final_answer model_reply s1
       | Inr (Some parsed_tool_req) \<Rightarrow>
           (case subscript parsed_tool_req ''tool'' of
              Inl f \<Rightarrow> (Returned (Inl f), s1)
            | Inr tool_name \<Rightarrow>
                (case subscript parsed_tool_req ''arguments'' of
                   Inl f \<Rightarrow> (Returned (Inl f), s1)
                 | Inr tool_args \<Rightarrow>
                     (case call_mcp_tool e tool_name tool_args s1 of
                        (Inl f, s2) \<Rightarrow> (Returned (Inl f), s2)
                      | (Inr tool_output, s2) \<Rightarrow>
                          (case ask_model_after_tool_lvl3 e tool_name tool_args tool_output s2 of
                             (model_reply2, s3) \<Rightarrow>
                               (case try_parse_tool_request e model_reply2 of
                                  Inl f \<Rightarrow> (Returned (Inl f), s3)
                                | Inr None \<Rightarrow> final_answer model_reply2 s3
                                | Inr (Some parsed_tool_req_2) \<Rightarrow>
                                    chain_second_tool e call_mcp_tool parsed_tool_req_2 s3)))))))"

definition run_agent_turn_async_lvl3 :: "env \<Rightarrow> string \<Rightarrow> state \<Rightarrow> (fault + string) \<times> state" where
  "run_agent_turn_async_lvl3 e user_text s =
     while_steps (loop_body_lvl3 e) max_steps (append_turn User user_text s)"

section \<open>Agent_Pstorage: agent_core/agent.py\<close>

text \<open>
  \<^verbatim>\<open>_call_mcp_tool\<close> of Agent_Pstorage raises FileNotFoundError itself when the server file
  is missing, before any request is sent.
\<close>

definition call_mcp_tool_ps :: "env \<Rightarrow> json \<Rightarrow> json \<Rightarrow> state \<Rightarrow> (fault + string) \<times> state" where
  "call_mcp_tool_ps e tool_name tool_args s =
     (if \<not> server_path_exists e
      then (Inl (FileNotFoundError (''mcp_server.py not found at: '' @ server_path e)), s)
      else (client_call_tool e (length (tool_calls s)) tool_name tool_args,
            s\<lparr>tool_calls := tool_calls s @ [(tool_name, tool_args)]\<rparr>))"

text \<open>The parameter list of the \<^verbatim>\<open>record_task\<close> tool (mcp_server.py, line 170).\<close>

definition record_task_params :: "string list" where
  "record_task_params = [''borrower'', ''officer'', ''note'', ''status'']"

text \<open>
  The arguments \<^verbatim>\<open>_maybe_persist_task\<close> builds for \<^verbatim>\<open>record_task\<close>: the three fields of the
  work item, the status, and the \<^verbatim>\<open>task_id\<close> of the tool output when the output is a JSON
  object whose \<^verbatim>\<open>task_id\<close> is truthy. Any failure to parse leaves \<^verbatim>\<open>task_id\<close> at \<^verbatim>\<open>None\<close>.
\<close>

definition persist_task_id :: "env \<Rightarrow> string \<Rightarrow> json" where
  "persist_task_id e tool_output =
     (case json_loads e tool_output of
        Inr (JObj data) \<Rightarrow> dict_get data ''task_id''
      | _ \<Rightarrow> JNull)"

definition persist_args :: "env \<Rightarrow> (string \<times> json) list \<Rightarrow> string \<Rightarrow> json" where
  "persist_args e tool_args tool_output =
     (let borrower = dict_get tool_args ''borrower'';
          officer = dict_get tool_args ''officer'';
          note = dict_get tool_args ''note'';
          task_id = persist_task_id e tool_output;
          args = [(''borrower'', borrower), (''officer'', officer), (''note'', note),
                  (''status'', JStr ''open'')]
      in JObj (if truthy task_id then args @ [(''task_id'', task_id)] else args))"

text \<open>
  \<^verbatim>\<open>_maybe_persist_task\<close>: for \<^verbatim>\<open>create_work_item\<close> only; whatever the \<^verbatim>\<open>record_task\<close> call
  returns or raises is dropped. (\<^verbatim>\<open>tool_args.get\<close> needs a dictionary.)
\<close>

definition maybe_persist_task ::
  "env \<Rightarrow> json \<Rightarrow> json \<Rightarrow> string \<Rightarrow> state \<Rightarrow> (fault + unit) \<times> state" where
  "maybe_persist_task e tool_name tool_args tool_output s =
     (if tool_name \<noteq> JStr ''create_work_item'' then (Inr (), s)
      else
        (case tool_args of
           JObj d \<Rightarrow>
             (case call_mcp_tool_ps e (JStr ''record_task'') (persist_args e d tool_output) s of
                (Inl f, s') \<Rightarrow> (Inr (), s')
              | (Inr out, s') \<Rightarrow> (Inr (), s'))
         | _ \<Rightarrow> (Inl AttributeError, s)))"

definition control_instruction_ps :: string where
  \<open>control_instruction_ps =
     ''You are deciding what to do NEXT:\<newline>'' @
     ''- If you ALREADY have enough info to answer the user's last request, provide FINAL_ANSWER in plain English.\<newline>'' @
     ''- If you STILL NEED more info or need to take an action, respond in TOOL_REQUEST mode with STRICT JSON ONLY.\<newline>''\<close>

definition ask_model_for_next_action_ps :: "env \<Rightarrow> state \<Rightarrow> string \<times> state" where
  "ask_model_for_next_action_ps e s =
     call_llm e
       ([\<lparr>role = System, content = SYSTEM_PROMPT e\<rparr>]
        @ conversation_history s
        @ [\<lparr>role = User, content = control_instruction_ps\<rparr>]) s"

definition followup_instruction_ps :: "env \<Rightarrow> json \<Rightarrow> json \<Rightarrow> string \<Rightarrow> string" where
  \<open>followup_instruction_ps e tool_name tool_args tool_output =
     ''The tool call just completed.\<newline>'' @
     ''Tool name: '' @ fmt e tool_name @ ''\<newline>'' @
     ''Tool arguments: '' @ json_dumps e tool_args @ ''\<newline>'' @
     ''Tool returned the following data (verbatim):\<newline>\<newline>'' @
     tool_output @ ''\<newline>\<newline>'' @
     ''Now decide what to do NEXT:\<newline>'' @
     ''- If you STILL need more info, respond in TOOL_REQUEST mode by returning STRICT JSON ONLY.\<newline>'' @
     ''- Otherwise, provide FINAL_ANSWER in plain English (no JSON). Summarize clearly.\<newline>''\<close>

text \<open>The messages \<^verbatim>\<open>_ask_model_after_tool\<close> builds from the history it finds.\<close>

definition messages_after_tool_ps ::
  "env \<Rightarrow> turn list \<Rightarrow> json \<Rightarrow> json \<Rightarrow> string \<Rightarrow> turn list" where
  "messages_after_tool_ps e history tool_name tool_args tool_output =
     [\<lparr>role = System, content = SYSTEM_PROMPT e\<rparr>]
     @ history
     @ [\<lparr>role = Assistant,
          content = json_dumps e (JObj [(''tool'', tool_name), (''arguments'', tool_args)])\<rparr>,
        \<lparr>role = System,
          content = followup_instruction_ps e tool_name tool_args tool_output\<rparr>]"

definition ask_model_after_tool_ps ::
  "env \<Rightarrow> json \<Rightarrow> json \<Rightarrow> string \<Rightarrow> state \<Rightarrow> string \<times> state" where
  "ask_model_after_tool_ps e tool_name tool_args tool_output s =
     call_llm e
       (messages_after_tool_ps e (conversation_history s) tool_name tool_args tool_output) s"

definition summarize_suffix :: string where
  "summarize_suffix =
     ''\<newline>\<newline>Please summarize the above tool data in plain English for the user.''"

text \<open>
  The engine's answer after the first tool call of an iteration: asked once; asked again
  when the stripped reply is empty; asked once more when the reply starts with an
  opening brace and ends with a closing one.
\<close>

definition reply_after_tool_ps ::
  "env \<Rightarrow> json \<Rightarrow> json \<Rightarrow> string \<Rightarrow> state \<Rightarrow> string \<times> state" where
  "reply_after_tool_ps e tool_name tool_args tool_output s =
     (case ask_model_after_tool_ps e tool_name tool_args tool_output s of (r1, s1) \<Rightarrow>
      (case (if strip r1 = []
             then (case ask_model_after_tool_ps e tool_name tool_args
                          (tool_output @ summarize_suffix) s1 of
                     (r2, s2) \<Rightarrow> (strip r2, s2))
             else (strip r1, s1)) of
         (model_reply, s2) \<Rightarrow>
           if startswith model_reply ''{'' \<and> endswith model_reply ''}''
           then ask_model_after_tool_ps e tool_name tool_args (tool_output @ summarize_suffix) s2
           else (model_reply, s2)))"

text \<open>The first reply of an iteration, asked again once when it is empty or blank.\<close>

definition first_reply_ps :: "env \<Rightarrow> state \<Rightarrow> string \<times> state" where
  "first_reply_ps e s =
     (case ask_model_for_next_action_ps e s of (model_reply, s1) \<Rightarrow>
        if model_reply = [] \<or> strip model_reply = []
        then ask_model_for_next_action_ps e s1
        else (model_reply, s1))"

definition loop_body_ps :: "env \<Rightarrow> state \<Rightarrow> outcome \<times> state" where
  "loop_body_ps e s =
     (case first_reply_ps e s of (model_reply, s1) \<Rightarrow>
      (case try_parse_tool_request e model_reply of
         Inl f \<Rightarrow> (Returned (Inl f), s1)
       | Inr None \<Rightarrow> final_answer model_reply s1
       | Inr (Some parsed_tool_req) \<Rightarrow>
           (case subscript parsed_tool_req ''tool'' of
              Inl f \<Rightarrow> (Returned (Inl f), s1)
            | Inr tool_name \<Rightarrow>
                (case subscript parsed_tool_req ''arguments'' of
                   Inl f \<Rightarrow> (Returned (Inl f), s1)
                 | Inr tool_args \<Rightarrow>
                     (case call_mcp_tool_ps e tool_name tool_args s1 of
                        (Inl f, s2) \<Rightarrow> (Returned (Inl f), s2)
                      | (Inr tool_output, s2) \<Rightarrow>
                          (case maybe_persist_task e tool_name tool_args tool_output s2 of
                             (Inl f, s3) \<Rightarrow> (Returned (Inl f), s3)
                           | (Inr u, s3) \<Rightarrow>
                               (case reply_after_tool_ps e tool_name tool_args tool_output s3 of
                                  (model_reply2, s4) \<Rightarrow>
                                    (case try_parse_tool_request e model_reply2 of
                                       Inl f \<Rightarrow> (Returned (Inl f), s4)
                                     | Inr None \<Rightarrow> final_answer model_reply2 s4
                                     | Inr (Some parsed_tool_req_2) \<Rightarrow>
                                         chain_second_tool e call_mcp_tool_ps
                                           parsed_tool_req_2 s4))))))))"

text \<open>The pipeline override: the keyword test and the fixed request.\<close>

definition override_matches :: "string \<Rightarrow> bool" where
  "override_matches user_text =
     (let lt = lower user_text in contains lt ''pipeline'' \<or> contains lt ''queue'')"

definition override_tool_name :: json where
  "override_tool_name = JStr ''get_tasks''"

definition override_tool_args :: json where
  "override_tool_args = JObj [(''status'', JStr ''open'')]"

text \<open>The two instructions the override path appends to the tool output.\<close>

definition override_summary_instruction :: string where
  "override_summary_instruction =
     ''\<newline>\<newline>Please summarize these tasks in plain English, grouped by officer if helpful.''"

definition override_retry_instruction :: string where
  "override_retry_instruction = ''\<newline>\<newline>Summarize in plain English.''"

definition pipeline_override :: "env \<Rightarrow> state \<Rightarrow> (fault + string) \<times> state" where
  "pipeline_override e s =
     (case call_mcp_tool_ps e override_tool_name override_tool_args s of
        (Inl f, s1) \<Rightarrow> (Inl f, s1)
      | (Inr tool_output, s1) \<Rightarrow>
          (case ask_model_after_tool_ps e override_tool_name override_tool_args
                  (tool_output @ override_summary_instruction) s1 of
             (r1, s2) \<Rightarrow>
               if strip r1 \<noteq> [] then (Inr (strip r1), s2)
               else
                 (case ask_model_after_tool_ps e override_tool_name override_tool_args
                         (tool_output @ override_retry_instruction) s2 of
                    (r2, s3) \<Rightarrow>
                      (Inr (if strip r2 \<noteq> [] then strip r2 else ''No tasks found.''), s3))))"

definition run_agent_turn_async_ps :: "env \<Rightarrow> string \<Rightarrow> state \<Rightarrow> (fault + string) \<times> state" where
  "run_agent_turn_async_ps e user_text s =
     (let s0 = append_turn User user_text s in
      if override_matches user_text then pipeline_override e s0
      else while_steps (loop_body_ps e) max_steps s0)"

section \<open>UWAgent: agent_core/agent.py\<close>

definition messages_for_first_attempt :: "env \<Rightarrow> state \<Rightarrow> string \<Rightarrow> turn list" where
  "messages_for_first_attempt e s extra_instruction =
     [\<lparr>role = System, content = SYSTEM_PROMPT e\<rparr>]
     @ conversation_history s
     @ [\<lparr>role = User,
          content = extra_instruction @
            ''\<newline>\<newline>Your job now: Either answer directly (MODE 1), '' @
            ''OR respond with a JSON tool request (MODE 2). '' @
            ''Do NOT stay silent.''\<rparr>]"

definition first_instruction_uw :: string where
  "first_instruction_uw =
     ''You must either answer in plain English OR request a tool in strict JSON.''"

definition retry_instruction_uw :: string where
  "retry_instruction_uw =
     ''If the user mentioned a filename (like memo.txt), '' @
     ''respond ONLY with JSON requesting read_file. '' @
     ''If the user asked about pipeline/queue/status, '' @
     ''respond ONLY with JSON requesting get_pipeline_summary. '' @
     ''Otherwise answer plainly. Do not be empty.''"

definition first_reply_uw :: "env \<Rightarrow> state \<Rightarrow> string \<times> state" where
  "first_reply_uw e s =
     (case call_llm e (messages_for_first_attempt e s first_instruction_uw) s of
        (first_reply, s1) \<Rightarrow>
          if strip first_reply = []
          then call_llm e (messages_for_first_attempt e s1 retry_instruction_uw) s1
          else (first_reply, s1))"

definition followup_messages_uw ::
  "env \<Rightarrow> state \<Rightarrow> string \<Rightarrow> json \<Rightarrow> string \<Rightarrow> turn list" where
  "followup_messages_uw e s first_reply tool_name tool_output =
     [\<lparr>role = System, content = SYSTEM_PROMPT e\<rparr>]
     @ conversation_history s
     @ [\<lparr>role = Assistant, content = first_reply\<rparr>,
        \<lparr>role = System,
          content =
            ''The tool '' @ [CHR 0x27] @ fmt e tool_name @ [CHR 0x27] @
            '' returned this data:\<newline>\<newline>'' @
            tool_output @ ''\<newline>\<newline>'' @
            ''Now answer the user in plain English using ONLY this data '' @
            ''and prior conversation context. '' @
            ''If math is relevant, show steps. '' @
            ''Do not claim to have read anything you were not given.''\<rparr>]"

text \<open>
  The tool-request detection of UWAgent is inline: \<^verbatim>\<open>json.loads\<close>, then the two
  subscripts, inside a \<^verbatim>\<open>try\<close> that catches JSONDecodeError only. A KeyError or TypeError
  of a subscript, or another exception of \<^verbatim>\<open>json.loads\<close>, leaves the function.
\<close>

definition run_agent_turn_async_uw :: "env \<Rightarrow> string \<Rightarrow> state \<Rightarrow> (fault + string) \<times> state" where
  "run_agent_turn_async_uw e user_text s =
     (case first_reply_uw e (append_turn User user_text s) of (first_reply, s1) \<Rightarrow>
      (case json_loads e first_reply of
         Inl f \<Rightarrow>
           if is_JSONDecodeError f
           then (Inr first_reply, append_turn Assistant first_reply s1)
           else (Inl f, s1)
       | Inr parsed \<Rightarrow>
           (case subscript parsed ''tool'' of
              Inl f \<Rightarrow> (Inl f, s1)
            | Inr tool_name \<Rightarrow>
                (case subscript parsed ''arguments'' of
                   Inl f \<Rightarrow> (Inl f, s1)
                 | Inr tool_args \<Rightarrow>
                     (case call_mcp_tool e tool_name tool_args s1 of
                        (Inl f, s2) \<Rightarrow> (Inl f, s2)
                      | (Inr tool_output, s2) \<Rightarrow>
                          (case call_llm e
                                  (followup_messages_uw e s2 first_reply tool_name tool_output)
                                  s2 of
                             (final_reply, s3) \<Rightarrow>
                               (Inr final_reply, append_turn Assistant final_reply s3)))))))"

section \<open>The tools: agent_core/mcp_server.py\<close>

subsection \<open>read_file\<close>

text \<open>
  Paths are POSIX path texts. The file system is a parameter, seen in two ways.
  \<open>files\<close> gives the text of each regular file that can be read, by its absolute
  normalised path; there are no symbolic links, so \<^verbatim>\<open>Path.resolve\<close> is the lexical
  normalisation. \<open>open_read cwd path\<close> is what \<^verbatim>\<open>open(path, "r").read()\<close> gives in the
  working directory \<open>cwd\<close> for the path as it was passed: the text, or the type name
  and the text of the exception.
\<close>

record filesystem =
  files :: "string \<Rightarrow> string option"
  open_read :: "string list \<Rightarrow> string \<Rightarrow> (string \<times> string) + string"

fun split_on :: "char \<Rightarrow> string \<Rightarrow> string list" where
  "split_on sep [] = [[]]"
| "split_on sep (c # cs) =
     (if c = sep then [] # split_on sep cs
      else (case split_on sep cs of
              [] \<Rightarrow> [[c]]
            | p # ps \<Rightarrow> (c # p) # ps))"

text \<open>Normalising components onto a stack: empty and dot are skipped, dot-dot pops.\<close>

fun normalise :: "string list \<Rightarrow> string list \<Rightarrow> string list" where
  "normalise stack [] = stack"
| "normalise stack (p # ps) =
     (if p = [] \<or> p = ''.'' then normalise stack ps
      else if p = ''..'' then normalise (butlast stack) ps
      else normalise (stack @ [p]) ps)"

text \<open>\<^verbatim>\<open>(base / path).resolve()\<close>: an absolute \<open>path\<close> replaces the base.\<close>

definition resolve_from :: "string list \<Rightarrow> string \<Rightarrow> string list" where
  "resolve_from base path =
     (if startswith path ''/'' then normalise [] (split_on CHR ''/'' path)
      else normalise base (split_on CHR ''/'' path))"

text \<open>\<^verbatim>\<open>str\<close> of an absolute path.\<close>

definition path_str :: "string list \<Rightarrow> string" where
  "path_str comps = ''/'' @ join ''/'' comps"

text \<open>\<^verbatim>\<open>ALLOWED_ROOT = Path("./shared").resolve()\<close>, for the working directory \<open>cwd\<close>.\<close>

definition ALLOWED_ROOT :: "string list \<Rightarrow> string list" where
  "ALLOWED_ROOT cwd = resolve_from cwd ''./shared''"

text \<open>
  UWAgent's \<^verbatim>\<open>read_file\<close>. \<^verbatim>\<open>Path.resolve\<close> raises ValueError on a path with a NUL
  character, before the check.
\<close>

definition read_file_uw :: "string list \<Rightarrow> filesystem \<Rightarrow> string \<Rightarrow> fault + string" where
  "read_file_uw cwd fs path =
     (if CHR 0x00 \<in> set path then Inl (ValueError ''embedded null byte'')
      else
        (let candidate = resolve_from (ALLOWED_ROOT cwd) path in
         if \<not> startswith (path_str candidate) (path_str (ALLOWED_ROOT cwd))
         then Inl (ValueError ''Access denied: outside allowed directory.'')
         else
           (case files fs (path_str candidate) of
              None \<Rightarrow> Inl (FileNotFoundError (path_str candidate @ '' not found.''))
            | Some text \<Rightarrow> Inr text)))"

text \<open>
  Agent_Pstorage's \<^verbatim>\<open>read_file\<close>: \<^verbatim>\<open>open(path)\<close> on the path as it is, with no check
  before it; a failure becomes text.
\<close>

definition read_file_ps :: "string list \<Rightarrow> filesystem \<Rightarrow> string \<Rightarrow> string" where
  "read_file_ps cwd fs path =
     (case open_read fs cwd path of
        Inr text \<Rightarrow> text
      | Inl (name, msg) \<Rightarrow> ''[read_file error] '' @ name @ '': '' @ msg)"

text \<open>
  A path lies inside a directory when the directory's components are a prefix of the
  path's components.
\<close>

definition inside :: "string list \<Rightarrow> string list \<Rightarrow> bool" where
  "inside dir p = (take (length dir) p = dir)"

subsection \<open>debt_yield\<close>

text \<open>
  A float value: a double, given by its exact value, or the result of a float division
  or multiplication. The model keeps float arithmetic symbolic: it does not compute the
  rounded result. The two arguments of the tool are doubles.
  \<open>zero_division_text\<close> is the interpreter's text of a ZeroDivisionError, and
  \<open>float_str\<close> and \<open>float_2f\<close> are the two float formats of the explanation.
\<close>

datatype pyfloat =
    Double rat
  | FDiv pyfloat pyfloat
  | FMul pyfloat pyfloat

record float_text =
  zero_division_text :: string
  float_str :: "pyfloat \<Rightarrow> string"
  float_2f :: "pyfloat \<Rightarrow> string"

text \<open>
  Agent_Pstorage's \<^verbatim>\<open>debt_yield\<close>. The \<^verbatim>\<open>try\<close> block converts two floats to float and
  divides; it raises exactly when the divisor is zero, a ZeroDivisionError, which the
  handler returns as text.
\<close>

definition debt_yield_ps :: "float_text \<Rightarrow> rat \<Rightarrow> rat \<Rightarrow> string" where
  "debt_yield_ps F noi loan_amount =
     (let noi_val = Double noi; loan_val = Double loan_amount in
      if loan_amount = 0
      then ''[debt_yield error] ZeroDivisionError: '' @ zero_division_text F
      else
        (let dy = FMul (FDiv noi_val loan_val) (Double 100) in
         ''Debt Yield Calculation:\<newline>'' @
         ''NOI = '' @ float_str F noi_val @ ''\<newline>'' @
         ''Loan Amount = '' @ float_str F loan_val @ ''\<newline>'' @
         ''Debt Yield = NOI / Loan Amount * 100\<newline>'' @
         ''           = '' @ float_str F noi_val @ '' / '' @ float_str F loan_val @ '' * 100\<newline>'' @
         ''           = '' @ float_2f F dy @ ''%\<newline>''))"

text \<open>UWAgent's \<^verbatim>\<open>debt_yield\<close>: an explicit guard that raises ValueError.\<close>

definition debt_yield_uw :: "rat \<Rightarrow> rat \<Rightarrow> fault + pyfloat" where
  "debt_yield_uw noi loan_amount =
     (if loan_amount = 0 then Inl (ValueError ''loan_amount cannot be 0.'')
      else Inr (FDiv (Double noi) (Double loan_amount)))"

section \<open>Concrete scenarios\<close>

text \<open>
  A scripted environment: the engine answers its \<open>n\<close>-th invocation with the \<open>n\<close>-th
  entry of a list (the last entry from then on), \<^verbatim>\<open>json.loads\<close> knows the texts of a
  table and raises JSONDecodeError on every other text, and \<^verbatim>\<open>json.dumps\<close> gives back the
  text of the table for a value of the table.
\<close>

fun reply_at :: "string list \<Rightarrow> nat \<Rightarrow> string" where
  "reply_at [] n = []"
| "reply_at [r] n = r"
| "reply_at (r # q # rs) 0 = r"
| "reply_at (r # q # rs) (Suc n) = reply_at (q # rs) n"

fun dumps_of :: "(string \<times> json) list \<Rightarrow> json \<Rightarrow> string" where
  "dumps_of [] v = ''null''"
| "dumps_of ((txt, w) # rest) v = (if w = v then txt else dumps_of rest v)"

definition loads_of :: "(string \<times> json) list \<Rightarrow> string \<Rightarrow> fault + json" where
  "loads_of table txt =
     (case map_of table txt of
        Some v \<Rightarrow> Inr v
      | None \<Rightarrow> Inl (JSONDecodeError ''Expecting value''))"

definition scripted ::
  "string list \<Rightarrow> (string \<times> json) list \<Rightarrow> (nat \<Rightarrow> json \<Rightarrow> json \<Rightarrow> fault + string) \<Rightarrow> bool \<Rightarrow> env" where
  "scripted replies table tools present =
     \<lparr>SYSTEM_PROMPT = ''You are a commercial credit analyst / credit operations assistant.'',
      ollama_run = (\<lambda>n prompt. reply_at replies n),
      json_loads = loads_of table,
      json_dumps = dumps_of table,
      py_str = dumps_of table,
      client_call_tool = tools,
      server_path = ''/srv/app/agent_core/mcp_server.py'',
      server_path_exists = present\<rparr>"

definition state0 :: state where
  "state0 = \<lparr>conversation_history = [], llm_calls = 0, tool_calls = []\<rparr>"

text \<open>The tool requests the scenarios use, as the engine writes them and as they parse.\<close>

definition create_request_text :: string where
  \<open>create_request_text =
     ''{"tool": "create_work_item", "arguments": {"borrower": "ACME Industrial LLC", "officer": "Lopez", "note": "Get updated rent roll ASAP"}}''\<close>

definition create_arguments :: json where
  "create_arguments =
     JObj [(''borrower'', JStr ''ACME Industrial LLC''), (''officer'', JStr ''Lopez''),
           (''note'', JStr ''Get updated rent roll ASAP'')]"

definition create_request :: json where
  "create_request = JObj [(''tool'', JStr ''create_work_item''), (''arguments'', create_arguments)]"

definition pipeline_request_text :: string where
  \<open>pipeline_request_text = ''{"tool": "get_pipeline_summary", "arguments": {}}''\<close>

definition pipeline_request :: json where
  "pipeline_request = JObj [(''tool'', JStr ''get_pipeline_summary''), (''arguments'', JObj [])]"

definition unknown_request_text :: string where
  \<open>unknown_request_text = ''{"tool": "close_account", "arguments": {}}''\<close>

definition unknown_request :: json where
  "unknown_request = JObj [(''tool'', JStr ''close_account''), (''arguments'', JObj [])]"

definition created_text :: string where
  \<open>created_text = ''{"task_id": "T-1", "status": "created"}''\<close>

definition created_null_text :: string where
  \<open>created_null_text = ''{"task_id": null, "status": "created"}''\<close>

definition parse_table :: "(string \<times> json) list" where
  \<open>parse_table =
     [(create_request_text, create_request),
      (pipeline_request_text, pipeline_request),
      (unknown_request_text, unknown_request),
      (created_text, JObj [(''task_id'', JStr ''T-1''), (''status'', JStr ''created'')]),
      (created_null_text, JObj [(''task_id'', JNull), (''status'', JStr ''created'')]),
      (''{}'', JObj []),
      (''{"status": "open"}'', JObj [(''status'', JStr ''open'')]),
      (''"get_pipeline_summary"'', JStr ''get_pipeline_summary''),
      (''"close_account"'', JStr ''close_account'')]\<close>

text \<open>
  The tool catalog of Lvl3Agent behind the client: a catalogued tool answers with a
  text, any other name makes the client raise.
\<close>

definition catalog_lvl3 :: "string list" where
  "catalog_lvl3 = [''get_pipeline_summary'', ''read_file'', ''debt_yield'', ''create_work_item'']"

definition catalog_ps :: "string list" where
  "catalog_ps = catalog_lvl3 @ [''record_task'', ''get_tasks'', ''db_health'']"

definition serve :: "string list \<Rightarrow> string \<Rightarrow> nat \<Rightarrow> json \<Rightarrow> json \<Rightarrow> fault + string" where
  "serve catalog answer n tool_name tool_args =
     (case tool_name of
        JStr name \<Rightarrow>
          if name \<in> set catalog then Inr answer else Inl (ToolError (''Unknown tool: '' @ name))
      | _ \<Rightarrow> Inl (ToolError ''Unknown tool''))"

text \<open>The engine asks for the mutating tool at once, with nothing confirmed before.\<close>

definition eager_env :: env where
  "eager_env =
     scripted [create_request_text, ''The task for Lopez has been created.''] parse_table
       (serve catalog_ps created_text) True"

definition assign_text :: string where
  "assign_text = ''assign Lopez a task to chase the rent roll''"

text \<open>The engine answers every prompt with the same tool request.\<close>

definition deals_text :: string where
  \<open>deals_text = ''{"pipeline_date": "2025-11-01", "deals": []}''\<close>

definition chatty_env :: env where
  "chatty_env = scripted [pipeline_request_text] parse_table (serve catalog_ps deals_text) True"



text \<open>The engine is silent after the override's tool call.\<close>

definition tasks_text :: string where
  \<open>tasks_text = ''[{"task_id": "1730000000000", "officer_name": "Lopez", "status": "open"}]''\<close>

definition silent_env :: env where
  "silent_env = scripted [[]] parse_table (serve catalog_ps tasks_text) True"

definition pipeline_question :: string where
  "pipeline_question = ''what is in the Pipeline''"

text \<open>One tool call, then a plain answer.\<close>

definition one_tool_env :: env where
  "one_tool_env =
     scripted [pipeline_request_text, ''Two deals are open.''] parse_table
       (serve catalog_ps deals_text) True"

text \<open>
  The engine insists on a second tool after the first, then answers: one pass of
  Agent_Pstorage goes on, the next returns.
\<close>

definition chained_env :: env where
  "chained_env =
     scripted [pipeline_request_text, pipeline_request_text, pipeline_request_text,
               ''Two deals are open.''] parse_table
       (serve catalog_ps deals_text) True"

text \<open>The engine answers with a JSON object that is not a tool request.\<close>

definition braces_env :: env where
  "braces_env = scripted [''{}''] parse_table (serve catalog_ps ''ok'') True"

text \<open>The work item comes back with a null identifier.\<close>

definition null_id_env :: env where
  "null_id_env = scripted [] parse_table (serve catalog_ps created_null_text) True"

text \<open>The work item is created, but the server behind the client has no \<^verbatim>\<open>record_task\<close>.\<close>

definition failing_store_env :: env where
  "failing_store_env = scripted [] parse_table (serve catalog_lvl3 created_text) True"

text \<open>
  A file system with a directory beside \<^verbatim>\<open>shared\<close> whose name starts with the same
  letters, and the working directory of the server.
\<close>

definition sibling_fs :: filesystem where
  "sibling_fs =
     \<lparr>files = (\<lambda>p. if p = ''/srv/app/shared/memo.txt'' then Some ''memo''
                    else if p = ''/srv/app/shared_private/keys.txt'' then Some ''secret''
                    else if p = ''/etc/passwd'' then Some ''root:x:0:0''
                    else None),
      open_read = (\<lambda>cwd p. if p = ''/etc/passwd'' then Inr ''root:x:0:0''
                         else Inl (''FileNotFoundError'',
                                   ''[Errno 2] No such file or directory: '' @ p))\<rparr>"

definition server_cwd :: "string list" where
  "server_cwd = [''srv'', ''app'']"

section \<open>Evaluating the scenarios\<close>

lemmas scenario_texts =
  create_request_text_def pipeline_request_text_def unknown_request_text_def
  created_text_def created_null_text_def

lemma loads_braces: "map_of parse_table ''{}'' = Some (JObj [])"
  by (simp add: parse_table_def scenario_texts)

lemma loads_created:
  "map_of parse_table created_text
     = Some (JObj [(''task_id'', JStr ''T-1''), (''status'', JStr ''created'')])"
  by (simp add: parse_table_def scenario_texts)

lemma loads_created_null:
  "map_of parse_table created_null_text
     = Some (JObj [(''task_id'', JNull), (''status'', JStr ''created'')])"
  by (simp add: parse_table_def scenario_texts)

lemma strip_braces: "strip ''{}'' = ''{}''"
  by (simp add: strip_def isspace_def)

lemma allowed_root_server_cwd: "ALLOWED_ROOT server_cwd = [''srv'', ''app'', ''shared'']"
  by (simp add: ALLOWED_ROOT_def server_cwd_def resolve_from_def startswith_def)

lemma resolve_sibling:
  "resolve_from [''srv'', ''app'', ''shared''] ''../shared_private/keys.txt''
     = [''srv'', ''app'', ''shared_private'', ''keys.txt'']"
  by (simp add: resolve_from_def startswith_def)

lemma resolve_passwd: "resolve_from server_cwd ''/etc/passwd'' = [''etc'', ''passwd'']"
  by (simp add: resolve_from_def startswith_def)

section \<open>The response classifier\<close>

text \<open>
  What \<^verbatim>\<open>_try_parse_tool_request\<close> of Lvl3Agent and Agent_Pstorage accepts: only a reply
  whose stripped text is delimited by braces and parses to a dictionary with a
  \<^verbatim>\<open>tool\<close> key and an \<^verbatim>\<open>arguments\<close> key bound to a dictionary. Every other reply gives
  \<open>None\<close>, the final-answer branch of the callers, unless \<^verbatim>\<open>json.loads\<close> raises
  something else than JSONDecodeError: that exception leaves the function.
\<close>

lemma try_parse_tool_request_Some:
  assumes "try_parse_tool_request e r = Inr (Some p)"
  shows "startswith (strip r) ''{'' \<and> endswith (strip r) ''}''
         \<and> json_loads e (strip r) = Inr p
         \<and> (\<exists>d tn a. p = JObj d \<and> map_of d ''tool'' = Some tn
                \<and> map_of d ''arguments'' = Some (JObj a))"
proof -
  from assms have b: "startswith (strip r) ''{'' \<and> endswith (strip r) ''}''"
    by (auto simp: try_parse_tool_request_def Let_def split: if_splits)
  with assms obtain q where q: "json_loads e (strip r) = Inr q"
    by (auto simp: try_parse_tool_request_def Let_def split: sum.splits if_splits)
  with assms b have shape: "p = q" "is_dict q" "has_key q ''tool''" "has_key q ''arguments''"
      "(case subscript q ''arguments'' of Inr a \<Rightarrow> is_dict a | Inl f \<Rightarrow> False)"
    by (auto simp: try_parse_tool_request_def Let_def split: if_splits)
  from shape(2) obtain d where d: "q = JObj d" by (cases q) auto
  from shape(3) d obtain tn where tn: "map_of d ''tool'' = Some tn" by auto
  from shape(4) d obtain v where v: "map_of d ''arguments'' = Some v" by auto
  from shape(5) d v obtain a where "v = JObj a" by (cases v) auto
  with b q shape(1) d tn v show ?thesis by auto
qed

lemma try_parse_tool_request_subscripts:
  assumes "try_parse_tool_request e r = Inr (Some p)"
  shows "\<exists>tn a. subscript p ''tool'' = Inr tn \<and> subscript p ''arguments'' = Inr (JObj a)"
  using try_parse_tool_request_Some [OF assms] by auto

lemma try_parse_tool_request_None:
  assumes "\<not> (startswith (strip r) ''{'' \<and> endswith (strip r) ''}'')
           \<or> (\<exists>msg. json_loads e (strip r) = Inl (JSONDecodeError msg))
           \<or> (\<exists>v. json_loads e (strip r) = Inr v \<and> (\<forall>d. v \<noteq> JObj d))
           \<or> (\<exists>d. json_loads e (strip r) = Inr (JObj d)
                 \<and> (map_of d ''tool'' = None \<or> (\<forall>a. map_of d ''arguments'' \<noteq> Some (JObj a))))"
  shows "try_parse_tool_request e r = Inr None"
proof (cases "try_parse_tool_request e r")
  case (Inl f)
  with assms show ?thesis
    by (auto simp: try_parse_tool_request_def Let_def split: if_splits sum.splits)
next
  case (Inr x)
  show ?thesis
  proof (cases x)
    case None
    with Inr show ?thesis by simp
  next
    case (Some p)
    with Inr have "try_parse_tool_request e r = Inr (Some p)" by simp
    from try_parse_tool_request_Some [OF this] assms show ?thesis by auto
  qed
qed

lemma try_parse_tool_request_raises:
  assumes "try_parse_tool_request e r = Inl f"
  shows "json_loads e (strip r) = Inl f \<and> \<not> is_JSONDecodeError f"
  using assms
  by (auto simp: try_parse_tool_request_def Let_def split: if_splits sum.splits)

text \<open>
  C3. The claim: the response classifier never raises, and every reply that is not a
  brace-delimited JSON mapping with a \<^verbatim>\<open>tool\<close> key and a mapping under \<^verbatim>\<open>arguments\<close> is a
  final answer. UWAgent's inline classifier catches JSONDecodeError only: on the reply
  \<^verbatim>\<open>{}\<close>, which parses to an empty dictionary, the subscript \<^verbatim>\<open>parsed["tool"]\<close> raises
  KeyError, and the exception leaves \<^verbatim>\<open>run_agent_turn_async\<close> with the user Turn already
  appended and no answer.
\<close>

theorem uw_classifier_raises:
  "run_agent_turn_async_uw braces_env ''hello'' state0 =
     (Inl (KeyError ''tool''),
      \<lparr>conversation_history = [\<lparr>role = User, content = ''hello''\<rparr>],
       llm_calls = 1, tool_calls = []\<rparr>)"
  by (simp add: run_agent_turn_async_uw_def first_reply_uw_def call_llm_def braces_env_def
      scripted_def loads_of_def strip_braces loads_braces state0_def append_turn_def)

section \<open>The tools\<close>

text \<open>
  C7. The claim: \<^verbatim>\<open>read_file\<close> never reads a path that resolves outside the allowed root.
  UWAgent compares the texts of the two paths with \<^verbatim>\<open>startswith\<close>, so a sibling directory
  whose name begins with the root's name passes the check: with the root
  \<^verbatim>\<open>/srv/app/shared\<close>, the argument \<^verbatim>\<open>../shared_private/keys.txt\<close> resolves outside the
  root and is read. Agent_Pstorage's \<^verbatim>\<open>read_file\<close> opens any path it is given.
\<close>

theorem read_file_escapes_allowed_root:
  "read_file_uw server_cwd sibling_fs ''../shared_private/keys.txt'' = Inr ''secret''
   \<and> \<not> inside (ALLOWED_ROOT server_cwd)
         (resolve_from (ALLOWED_ROOT server_cwd) ''../shared_private/keys.txt'')
   \<and> read_file_ps server_cwd sibling_fs ''/etc/passwd'' = ''root:x:0:0''"
  by (simp add: read_file_uw_def read_file_ps_def allowed_root_server_cwd resolve_sibling
      resolve_passwd inside_def path_str_def startswith_def sibling_fs_def)

text \<open>
  C8, as the claim states it, fails on UWAgent: its \<^verbatim>\<open>debt_yield\<close> guards the division
  with a \<^verbatim>\<open>raise ValueError\<close>, so for \<^verbatim>\<open>noi = 100000\<close>, \<^verbatim>\<open>loan_amount = 0\<close> the tool raises
  and returns no text.
\<close>

theorem debt_yield_uw_zero_raises:
  "debt_yield_uw 100000 0 = Inl (ValueError ''loan_amount cannot be 0.'')"
  by (simp add: debt_yield_uw_def)

text \<open>
  C8, amended. For every \<^verbatim>\<open>noi\<close>, with \<^verbatim>\<open>loan_amount = 0\<close>: Agent_Pstorage's \<^verbatim>\<open>debt_yield\<close>
  returns the text \<^verbatim>\<open>[debt_yield error] ZeroDivisionError: \<close> followed by the text of the
  exception, and raises nothing; UWAgent's \<^verbatim>\<open>debt_yield\<close> raises
  \<^verbatim>\<open>ValueError("loan_amount cannot be 0.")\<close>.
\<close>

theorem debt_yield_zero_loan_amount:
  "debt_yield_ps F noi 0 = ''[debt_yield error] ZeroDivisionError: '' @ zero_division_text F
   \<and> debt_yield_uw noi 0 = Inl (ValueError ''loan_amount cannot be 0.'')"
  by (simp add: debt_yield_ps_def debt_yield_uw_def)

section \<open>The persistence helper of Agent_Pstorage\<close>

text \<open>
  C10, as the claim states it, fails when the \<^verbatim>\<open>task_id\<close> field is there but falsy: the
  helper tests \<^verbatim>\<open>if task_id:\<close>. For the tool output
  \<^verbatim>\<open>{"task_id": null, "status": "created"}\<close> the \<^verbatim>\<open>record_task\<close> request carries the four
  declared keys and no \<^verbatim>\<open>task_id\<close>.
\<close>

theorem persist_drops_null_task_id:
  "json_loads null_id_env created_null_text
     = Inr (JObj [(''task_id'', JNull), (''status'', JStr ''created'')])
   \<and> tool_calls (snd (maybe_persist_task null_id_env (JStr ''create_work_item'')
                          create_arguments created_null_text state0))
     = [(JStr ''record_task'',
         JObj [(''borrower'', JStr ''ACME Industrial LLC''), (''officer'', JStr ''Lopez''),
               (''note'', JStr ''Get updated rent roll ASAP''), (''status'', JStr ''open'')])]"
  by (simp add: maybe_persist_task_def persist_args_def persist_task_id_def call_mcp_tool_ps_def
      null_id_env_def scripted_def loads_of_def loads_created_null create_arguments_def state0_def
      serve_def catalog_ps_def catalog_lvl3_def)

text \<open>
  C10, amended. In Agent_Pstorage, whenever the output of \<^verbatim>\<open>create_work_item\<close> parses as a
  JSON object whose \<^verbatim>\<open>task_id\<close> field is truthy, \<^verbatim>\<open>_maybe_persist_task\<close> calls
  \<^verbatim>\<open>record_task\<close> with the keys borrower, officer, note, status and the extra key
  \<^verbatim>\<open>task_id\<close>, which is not a parameter of \<^verbatim>\<open>record_task\<close>; whatever that call returns or
  raises, the helper returns normally and the conversation history is unchanged.
\<close>

theorem persist_passes_task_id:
  assumes "json_loads e tool_output = Inr (JObj data)"
    and "map_of data ''task_id'' = Some tid"
    and "truthy tid"
  shows "maybe_persist_task e (JStr ''create_work_item'') (JObj d) tool_output s =
           (Inr (), snd (call_mcp_tool_ps e (JStr ''record_task'')
              (JObj [(''borrower'', dict_get d ''borrower''), (''officer'', dict_get d ''officer''),
                     (''note'', dict_get d ''note''), (''status'', JStr ''open''),
                     (''task_id'', tid)]) s))
         \<and> ''task_id'' \<notin> set record_task_params
         \<and> conversation_history
              (snd (maybe_persist_task e (JStr ''create_work_item'') (JObj d) tool_output s))
            = conversation_history s"
  using assms
  by (auto simp: maybe_persist_task_def persist_args_def persist_task_id_def call_mcp_tool_ps_def
      record_task_params_def split: prod.splits sum.splits)

text \<open>
  The amended C10 at a run where the server has no \<^verbatim>\<open>record_task\<close>: the request with the
  extra key is sent, the client raises, and the helper returns normally.
\<close>

theorem persist_passes_task_id_witness:
  "maybe_persist_task failing_store_env (JStr ''create_work_item'') create_arguments
       created_text state0 =
     (Inr (), \<lparr>conversation_history = [], llm_calls = 0,
               tool_calls = [(JStr ''record_task'',
                 JObj [(''borrower'', JStr ''ACME Industrial LLC''), (''officer'', JStr ''Lopez''),
                       (''note'', JStr ''Get updated rent roll ASAP''), (''status'', JStr ''open''),
                       (''task_id'', JStr ''T-1'')])]\<rparr>)
   \<and> client_call_tool failing_store_env 0 (JStr ''record_task'')
        (JObj [(''borrower'', JStr ''ACME Industrial LLC''), (''officer'', JStr ''Lopez''),
               (''note'', JStr ''Get updated rent roll ASAP''), (''status'', JStr ''open''),
               (''task_id'', JStr ''T-1'')])
       = Inl (ToolError ''Unknown tool: record_task'')"
proof -
  have loads: "json_loads failing_store_env created_text
      = Inr (JObj [(''task_id'', JStr ''T-1''), (''status'', JStr ''created'')])"
    by (simp add: failing_store_env_def scripted_def loads_of_def loads_created)
  have tid: "map_of [(''task_id'', JStr ''T-1''), (''status'', JStr ''created'')] ''task_id''
      = Some (JStr ''T-1'')"
    by simp
  have tr: "truthy (JStr ''T-1'')" by simp
  from persist_passes_task_id [OF loads tid tr,
      of "[(''borrower'', JStr ''ACME Industrial LLC''), (''officer'', JStr ''Lopez''),
           (''note'', JStr ''Get updated rent roll ASAP'')]" state0]
  show ?thesis
    by (simp add: create_arguments_def call_mcp_tool_ps_def failing_store_env_def scripted_def loads_of_def
        state0_def serve_def catalog_lvl3_def)
qed

section \<open>Effects of the helpers on the process state\<close>

lemma call_llm_effect:
  assumes "call_llm e m s = (r, s')"
  shows "conversation_history s' = conversation_history s \<and> tool_calls s' = tool_calls s
         \<and> llm_calls s' = Suc (llm_calls s)"
  using assms by (auto simp: call_llm_def)

lemma ask_lvl3_effect:
  assumes "ask_model_for_next_action_lvl3 e s = (r, s')"
  shows "conversation_history s' = conversation_history s \<and> tool_calls s' = tool_calls s"
  using assms call_llm_effect unfolding ask_model_for_next_action_lvl3_def by blast

lemma after_lvl3_effect:
  assumes "ask_model_after_tool_lvl3 e tn ta out s = (r, s')"
  shows "conversation_history s' = conversation_history s \<and> tool_calls s' = tool_calls s"
  using assms call_llm_effect unfolding ask_model_after_tool_lvl3_def by blast

lemma ask_ps_effect:
  assumes "ask_model_for_next_action_ps e s = (r, s')"
  shows "conversation_history s' = conversation_history s \<and> tool_calls s' = tool_calls s"
  using assms call_llm_effect unfolding ask_model_for_next_action_ps_def by blast

lemma after_ps_effect:
  assumes "ask_model_after_tool_ps e tn ta out s = (r, s')"
  shows "conversation_history s' = conversation_history s \<and> tool_calls s' = tool_calls s"
  using assms call_llm_effect unfolding ask_model_after_tool_ps_def by blast

lemma first_reply_ps_effect:
  assumes "first_reply_ps e s = (r, s')"
  shows "conversation_history s' = conversation_history s \<and> tool_calls s' = tool_calls s"
  using assms unfolding first_reply_ps_def
  by (auto split: prod.splits if_splits dest!: ask_ps_effect)

lemma reply_after_tool_ps_effect:
  assumes "reply_after_tool_ps e tn ta out s = (r, s')"
  shows "conversation_history s' = conversation_history s \<and> tool_calls s' = tool_calls s"
  using assms unfolding reply_after_tool_ps_def
  by (auto split: prod.splits if_splits dest!: after_ps_effect)

lemma call_mcp_tool_effect:
  assumes "call_mcp_tool e tn ta s = (r, s')"
  shows "conversation_history s' = conversation_history s
         \<and> tool_calls s' = tool_calls s @ [(tn, ta)]"
  using assms by (auto simp: call_mcp_tool_def)

lemma call_mcp_tool_ps_effect:
  assumes "call_mcp_tool_ps e tn ta s = (r, s')"
  shows "conversation_history s' = conversation_history s
         \<and> (\<exists>zs. tool_calls s' = tool_calls s @ zs \<and> length zs \<le> 1)"
  using assms by (auto simp: call_mcp_tool_ps_def split: if_splits)

lemma maybe_persist_task_effect:
  assumes "maybe_persist_task e tn ta out s = (r, s')"
  shows "conversation_history s' = conversation_history s
         \<and> (\<exists>zs. tool_calls s' = tool_calls s @ zs \<and> length zs \<le> 1)"
  using assms unfolding maybe_persist_task_def
  by (auto split: if_splits json.splits prod.splits sum.splits dest!: call_mcp_tool_ps_effect)

lemma final_answer_effect:
  assumes "final_answer r s = (oc, s')"
  shows "oc = Returned (Inr (strip r))
         \<and> conversation_history s' = conversation_history s @ [\<lparr>role = Assistant, content = strip r\<rparr>]
         \<and> tool_calls s' = tool_calls s"
  using assms by (auto simp: final_answer_def append_turn_def)

lemma call_mcp_tool_answer:
  assumes "call_mcp_tool e tn ta s = (Inr out, s')"
  shows "client_call_tool e (length (tool_calls s)) tn ta = Inr out"
  using assms by (auto simp: call_mcp_tool_def)

lemma call_mcp_tool_ps_answer:
  assumes "call_mcp_tool_ps e tn ta s = (Inr out, s')"
  shows "conversation_history s' = conversation_history s
         \<and> tool_calls s' = tool_calls s @ [(tn, ta)]
         \<and> client_call_tool e (length (tool_calls s)) tn ta = Inr out"
  using assms by (auto simp: call_mcp_tool_ps_def split: if_splits)

lemma chain_lvl3_effect:
  assumes "chain_second_tool e call_mcp_tool p s = (oc, s')"
  shows "\<exists>zs hs. tool_calls s' = tool_calls s @ zs \<and> length zs \<le> 1
           \<and> conversation_history s' = conversation_history s @ hs
           \<and> (\<forall>a. oc \<noteq> Returned (Inr a))"
  using assms unfolding chain_second_tool_def Let_def
  by (auto simp: append_turn_def split: sum.splits prod.splits dest!: call_mcp_tool_effect)

lemma chain_ps_effect:
  assumes "chain_second_tool e call_mcp_tool_ps p s = (oc, s')"
  shows "\<exists>zs hs. tool_calls s' = tool_calls s @ zs \<and> length zs \<le> 1
           \<and> conversation_history s' = conversation_history s @ hs
           \<and> (\<forall>a. oc \<noteq> Returned (Inr a))"
  using assms unfolding chain_second_tool_def Let_def
  by (auto simp: append_turn_def split: sum.splits prod.splits dest!: call_mcp_tool_ps_effect)

text \<open>
  A second tool request that was executed: its two Turns are appended, and its request
  is the one new entry of the log, answered by the tool transport with the text of the
  system Turn.
\<close>

lemma chain_lvl3_continue:
  assumes "chain_second_tool e call_mcp_tool p s = (Continue, s')"
  shows "\<exists>tn ta out. subscript p ''tool'' = Inr tn \<and> subscript p ''arguments'' = Inr ta
           \<and> tool_calls s' = tool_calls s @ [(tn, ta)]
           \<and> client_call_tool e (length (tool_calls s)) tn ta = Inr out
           \<and> conversation_history s' = conversation_history s
               @ [\<lparr>role = Assistant, content = json_dumps e p\<rparr>,
                  \<lparr>role = System, content = tool_returned_text e tn out\<rparr>]"
  using assms unfolding chain_second_tool_def Let_def
  by (auto simp: append_turn_def call_mcp_tool_def split: sum.splits prod.splits)

lemma chain_ps_continue:
  assumes "chain_second_tool e call_mcp_tool_ps p s = (Continue, s')"
  shows "\<exists>tn ta out. subscript p ''tool'' = Inr tn \<and> subscript p ''arguments'' = Inr ta
           \<and> tool_calls s' = tool_calls s @ [(tn, ta)]
           \<and> client_call_tool e (length (tool_calls s)) tn ta = Inr out
           \<and> conversation_history s' = conversation_history s
               @ [\<lparr>role = Assistant, content = json_dumps e p\<rparr>,
                  \<lparr>role = System, content = tool_returned_text e tn out\<rparr>]"
  using assms unfolding chain_second_tool_def Let_def
  by (auto simp: append_turn_def call_mcp_tool_ps_def split: sum.splits prod.splits if_splits)

text \<open>The round-trip of a pass that goes on, from the facts about its second request.\<close>

lemma continue_round:
  assumes "subscript p ''tool'' = Inr tn" and "subscript p ''arguments'' = Inr ta"
    and "tool_calls s' = tool_calls s @ zs @ [(tn, ta)]"
    and "zs \<noteq> []" and "length zs \<le> 2"
    and "client_call_tool e (length (tool_calls s) + length zs) tn ta = Inr out"
    and "conversation_history s' = conversation_history s
           @ [\<lparr>role = Assistant, content = json_dumps e p\<rparr>,
              \<lparr>role = System, content = tool_returned_text e tn out\<rparr>]"
  shows "\<exists>ys hs. tool_calls s' = tool_calls s @ ys \<and> length ys \<le> 3
           \<and> conversation_history s' = conversation_history s @ hs
           \<and> (\<exists>r. hs = round_turns e r
                 \<and> rounds_logged e (tool_calls s') (length (tool_calls s)) [r]
                 \<and> Suc (rt_index r) = length (tool_calls s'))"
proof -
  let ?r = "\<lparr>rt_request = p, rt_tool = tn, rt_args = ta, rt_output = out,
             rt_index = length (tool_calls s) + length zs\<rparr>"
  have "rounds_logged e (tool_calls s') (length (tool_calls s)) [?r]"
    using assms by (simp add: nth_append)
  moreover have "Suc (rt_index ?r) = length (tool_calls s')" using assms(3) by simp
  moreover have "round_turns e ?r
      = [\<lparr>role = Assistant, content = json_dumps e p\<rparr>,
         \<lparr>role = System, content = tool_returned_text e tn out\<rparr>]"
    by (simp add: round_turns_def)
  ultimately show ?thesis
    using assms(3,5,7)
    by (intro exI [of _ "zs @ [(tn, ta)]"] exI [of _ "round_turns e ?r"] conjI exI [of _ ?r])
      simp_all
qed

lemma loop_body_lvl3_continue:
  assumes "loop_body_lvl3 e s = (Continue, s')"
  shows "\<exists>p tn ta out c. subscript p ''tool'' = Inr tn \<and> subscript p ''arguments'' = Inr ta
           \<and> tool_calls s' = tool_calls s @ [c] @ [(tn, ta)]
           \<and> client_call_tool e (length (tool_calls s) + 1) tn ta = Inr out
           \<and> conversation_history s' = conversation_history s
               @ [\<lparr>role = Assistant, content = json_dumps e p\<rparr>,
                  \<lparr>role = System, content = tool_returned_text e tn out\<rparr>]"
  using assms unfolding loop_body_lvl3_def
  by (auto simp: final_answer_def split: prod.splits option.splits sum.splits
      dest!: ask_lvl3_effect after_lvl3_effect call_mcp_tool_effect chain_lvl3_continue)

lemma loop_body_ps_continue:
  assumes "loop_body_ps e s = (Continue, s')"
  shows "\<exists>p tn ta out zs. zs \<noteq> [] \<and> length zs \<le> 2
           \<and> subscript p ''tool'' = Inr tn \<and> subscript p ''arguments'' = Inr ta
           \<and> tool_calls s' = tool_calls s @ zs @ [(tn, ta)]
           \<and> client_call_tool e (length (tool_calls s) + length zs) tn ta = Inr out
           \<and> conversation_history s' = conversation_history s
               @ [\<lparr>role = Assistant, content = json_dumps e p\<rparr>,
                  \<lparr>role = System, content = tool_returned_text e tn out\<rparr>]"
proof -
  from assms obtain r s1 req tn1 ta1 out1 s2 s3 r2 s4 p where
    f: "first_reply_ps e s = (r, s1)"
    and c1: "call_mcp_tool_ps e tn1 ta1 s1 = (Inr out1, s2)"
    and m: "maybe_persist_task e tn1 ta1 out1 s2 = (Inr (), s3)"
    and a: "reply_after_tool_ps e tn1 ta1 out1 s3 = (r2, s4)"
    and ch: "chain_second_tool e call_mcp_tool_ps p s4 = (Continue, s')"
    unfolding loop_body_ps_def
    by (auto simp: final_answer_def split: prod.splits option.splits sum.splits)
  from first_reply_ps_effect [OF f] have 1: "tool_calls s1 = tool_calls s"
    "conversation_history s1 = conversation_history s" by simp_all
  from call_mcp_tool_ps_answer [OF c1] have 2: "tool_calls s2 = tool_calls s1 @ [(tn1, ta1)]"
    "conversation_history s2 = conversation_history s1" by simp_all
  from maybe_persist_task_effect [OF m] obtain ms where 3:
    "tool_calls s3 = tool_calls s2 @ ms" "length ms \<le> 1"
    "conversation_history s3 = conversation_history s2" by auto
  from reply_after_tool_ps_effect [OF a] have 4: "tool_calls s4 = tool_calls s3"
    "conversation_history s4 = conversation_history s3" by simp_all
  from chain_ps_continue [OF ch] obtain tn ta out where 5:
    "subscript p ''tool'' = Inr tn" "subscript p ''arguments'' = Inr ta"
    "tool_calls s' = tool_calls s4 @ [(tn, ta)]"
    "client_call_tool e (length (tool_calls s4)) tn ta = Inr out"
    "conversation_history s' = conversation_history s4
       @ [\<lparr>role = Assistant, content = json_dumps e p\<rparr>,
          \<lparr>role = System, content = tool_returned_text e tn out\<rparr>]" by blast
  show ?thesis
    using 1 2 3 4 5
    by (intro exI [of _ p] exI [of _ tn] exI [of _ ta] exI [of _ out]
        exI [of _ "(tn1, ta1) # ms"]) simp
qed

lemma loop_body_lvl3_effect:
  assumes "loop_body_lvl3 e s = (oc, s')"
  shows "pass_effect e 3 s oc s'"
proof (cases oc)
  case Continue
  with assms have c: "loop_body_lvl3 e s = (Continue, s')" by simp
  from loop_body_lvl3_continue [OF c] obtain p tn ta out c where
    "subscript p ''tool'' = Inr tn" "subscript p ''arguments'' = Inr ta"
    "tool_calls s' = tool_calls s @ [c] @ [(tn, ta)]"
    "client_call_tool e (length (tool_calls s) + length [c]) tn ta = Inr out"
    "conversation_history s' = conversation_history s
       @ [\<lparr>role = Assistant, content = json_dumps e p\<rparr>,
          \<lparr>role = System, content = tool_returned_text e tn out\<rparr>]" by auto
  from continue_round [OF this(1-3) _ _ this(4,5)] Continue show ?thesis
    by (simp add: pass_effect_def)
next
  case (Returned r)
  with assms show ?thesis unfolding loop_body_lvl3_def pass_effect_def
    by (auto split: prod.splits option.splits sum.splits
        dest!: ask_lvl3_effect after_lvl3_effect call_mcp_tool_effect final_answer_effect
               chain_lvl3_effect)
qed

lemma loop_body_lvl3_two_calls:
  assumes "loop_body_lvl3 e s = (oc, s')"
  shows "length (tool_calls s') \<le> length (tool_calls s) + 2"
  using assms unfolding loop_body_lvl3_def
  by (auto split: prod.splits option.splits sum.splits
      dest!: ask_lvl3_effect after_lvl3_effect call_mcp_tool_effect final_answer_effect
             chain_lvl3_effect)

lemma loop_body_ps_effect:
  assumes "loop_body_ps e s = (oc, s')"
  shows "pass_effect e 3 s oc s'"
proof (cases oc)
  case Continue
  with assms have c: "loop_body_ps e s = (Continue, s')" by simp
  from loop_body_ps_continue [OF c] obtain p tn ta out zs where
    "subscript p ''tool'' = Inr tn" "subscript p ''arguments'' = Inr ta"
    "tool_calls s' = tool_calls s @ zs @ [(tn, ta)]" "zs \<noteq> []" "length zs \<le> 2"
    "client_call_tool e (length (tool_calls s) + length zs) tn ta = Inr out"
    "conversation_history s' = conversation_history s
       @ [\<lparr>role = Assistant, content = json_dumps e p\<rparr>,
          \<lparr>role = System, content = tool_returned_text e tn out\<rparr>]" by blast
  from continue_round [OF this] Continue show ?thesis
    by (simp add: pass_effect_def)
next
  case (Returned r)
  with assms show ?thesis unfolding loop_body_ps_def pass_effect_def
    by (auto split: prod.splits option.splits sum.splits
        dest!: first_reply_ps_effect reply_after_tool_ps_effect call_mcp_tool_ps_effect
               final_answer_effect chain_ps_effect maybe_persist_task_effect)
qed

section \<open>The bounded loop\<close>

lemma strip_strip: "strip (strip s) = strip s"
proof -
  define t where "t = dropWhile isspace s"
  define u where "u = dropWhile isspace (rev t)"
  have u_idem: "dropWhile isspace u = u" by (simp add: u_def)
  have "strip s = rev u" by (simp add: strip_def t_def u_def)
  moreover have "dropWhile isspace (rev u) = rev u"
  proof (cases "u = []")
    case True then show ?thesis by simp
  next
    case False
    then have tne: "t \<noteq> []" by (auto simp: u_def)
    then have "\<not> isspace (hd t)" unfolding t_def by (metis hd_dropWhile)
    moreover have "rev t = takeWhile isspace (rev t) @ u" by (simp add: u_def)
    then have "t = rev u @ rev (takeWhile isspace (rev t))"
      by (metis rev_append rev_rev_ident)
    with False have "hd (rev u) = hd t" by (metis hd_append2 rev_is_Nil_conv)
    ultimately have "\<not> isspace (hd (rev u))" by simp
    with False show ?thesis by (cases "rev u") auto
  qed
  ultimately show ?thesis by (simp add: strip_def u_idem)
qed

lemma while_steps_calls:
  assumes body: "\<And>s oc s'. body s = (oc, s') \<Longrightarrow>
      length (tool_calls s') \<le> length (tool_calls s) + k"
  shows "length (tool_calls (snd (while_steps body n s))) \<le> length (tool_calls s) + k * n"
proof (induction n arbitrary: s)
  case 0
  show ?case by (simp add: append_turn_def)
next
  case (Suc n)
  obtain oc s' where b: "body s = (oc, s')" by (cases "body s")
  from body [OF b] have l: "length (tool_calls s') \<le> length (tool_calls s) + k" .
  show ?case
  proof (cases oc)
    case (Returned r)
    with b l show ?thesis by simp
  next
    case Continue
    with b have "while_steps body (Suc n) s = while_steps body n s'" by simp
    with Suc.IH [of s'] l show ?thesis by simp
  qed
qed

text \<open>Round-trips found in a log are found in every extension of the log.\<close>

lemma rounds_logged_append:
  assumes "rounds_logged e calls start rs"
  shows "rounds_logged e (calls @ later) start rs"
  using assms
  by (induction rs arbitrary: start) (auto simp: nth_append)

text \<open>
  The effect of the loop on the state: the log and the history are extended, and when
  an answer is returned the appended Turns are the Turns of the recorded round-trips,
  one for each pass that went on, followed by the answer.
\<close>

lemma while_steps_effect:
  assumes body: "\<And>s oc s'. body s = (oc, s') \<Longrightarrow> pass_effect e k s oc s'"
  shows "\<exists>zs hs. tool_calls (snd (while_steps body n s)) = tool_calls s @ zs
            \<and> length zs \<le> k * n
            \<and> conversation_history (snd (while_steps body n s)) = conversation_history s @ hs
            \<and> (\<forall>a. fst (while_steps body n s) = Inr a \<longrightarrow>
                  (\<exists>rs. length rs \<le> n
                      \<and> rounds_logged e (tool_calls (snd (while_steps body n s)))
                            (length (tool_calls s)) rs
                      \<and> hs = concat (map (round_turns e) rs)
                               @ [\<lparr>role = Assistant, content = a\<rparr>]))"
proof (induction n arbitrary: s)
  case 0
  show ?case by (auto simp: append_turn_def intro!: exI [of _ "[]"])
next
  case (Suc n)
  obtain oc s' where b: "body s = (oc, s')" by (cases "body s")
  from body [OF b] obtain zs hs where e:
    "tool_calls s' = tool_calls s @ zs" "length zs \<le> k"
    "conversation_history s' = conversation_history s @ hs"
    "case oc of Returned (Inr a) \<Rightarrow> hs = [\<lparr>role = Assistant, content = a\<rparr>]
       | Returned (Inl f) \<Rightarrow> True
       | Continue \<Rightarrow> (\<exists>r. hs = round_turns e r
            \<and> rounds_logged e (tool_calls s') (length (tool_calls s)) [r]
            \<and> Suc (rt_index r) = length (tool_calls s'))"
    unfolding pass_effect_def by blast
  show ?case
  proof (cases oc)
    case (Returned r)
    with b e show ?thesis
      by (cases r) (auto intro!: exI [of _ zs] exI [of _ "[]"])
  next
    case Continue
    let ?W = "while_steps body n s'"
    from Suc.IH [of s'] obtain zs' hs' where i:
      "tool_calls (snd ?W) = tool_calls s' @ zs'" "length zs' \<le> k * n"
      "conversation_history (snd ?W) = conversation_history s' @ hs'"
      "\<forall>a. fst ?W = Inr a \<longrightarrow>
          (\<exists>rs. length rs \<le> n
              \<and> rounds_logged e (tool_calls (snd ?W)) (length (tool_calls s')) rs
              \<and> hs' = concat (map (round_turns e) rs) @ [\<lparr>role = Assistant, content = a\<rparr>])"
      by blast
    from Continue e(4) obtain r where r: "hs = round_turns e r"
      "rounds_logged e (tool_calls s') (length (tool_calls s)) [r]"
      "Suc (rt_index r) = length (tool_calls s')" by auto
    have w: "while_steps body (Suc n) s = ?W"
      using b Continue by simp
    show ?thesis
    proof (intro exI [of _ "zs @ zs'"] exI [of _ "hs @ hs'"] conjI allI impI)
      show "tool_calls (snd (while_steps body (Suc n) s)) = tool_calls s @ zs @ zs'"
        using w i(1) e(1) by simp
      show "length (zs @ zs') \<le> k * Suc n" using e(2) i(2) by simp
      show "conversation_history (snd (while_steps body (Suc n) s))
          = conversation_history s @ hs @ hs'"
        using w i(3) e(3) by simp
    next
      fix a assume "fst (while_steps body (Suc n) s) = Inr a"
      with w i(4) obtain rs where rs: "length rs \<le> n"
        "rounds_logged e (tool_calls (snd ?W)) (length (tool_calls s')) rs"
        "hs' = concat (map (round_turns e) rs) @ [\<lparr>role = Assistant, content = a\<rparr>]"
        by auto
      from rounds_logged_append [OF r(2), of zs'] i(1)
      have "rounds_logged e (tool_calls (snd ?W)) (length (tool_calls s)) [r]" by simp
      with rs(2) r(3) have "rounds_logged e (tool_calls (snd ?W)) (length (tool_calls s)) (r # rs)"
        by simp
      with rs r(1) w
      show "\<exists>rs. length rs \<le> Suc n
          \<and> rounds_logged e (tool_calls (snd (while_steps body (Suc n) s)))
                (length (tool_calls s)) rs
          \<and> hs @ hs' = concat (map (round_turns e) rs) @ [\<lparr>role = Assistant, content = a\<rparr>]"
        by (intro exI [of _ "r # rs"]) simp
    qed
  qed
qed

lemma while_steps_exhausts:
  assumes "exhausts body n s"
  shows "fst (while_steps body n s) = Inr safety_msg"
  using assms
  by (induction n arbitrary: s) (auto split: prod.splits outcome.splits)

lemma exhausts_always_continue:
  assumes "\<And>s. fst (body s) = Continue"
  shows "exhausts body n s"
proof (induction n arbitrary: s)
  case 0 show ?case by simp
next
  case (Suc n)
  from assms [of s] obtain s' where "body s = (Continue, s')" by (cases "body s") auto
  with Suc show ?case by simp
qed

lemma while_steps_count:
  assumes "\<And>s. fst (body s) = Continue"
    and "\<And>s. length (tool_calls (snd (body s))) = length (tool_calls s) + k"
  shows "length (tool_calls (snd (while_steps body n s))) = length (tool_calls s) + k * n"
proof (induction n arbitrary: s)
  case 0 show ?case by (simp add: append_turn_def)
next
  case (Suc n)
  from assms(1) [of s] obtain s' where b: "body s = (Continue, s')" by (cases "body s") auto
  from assms(2) [of s] b have "length (tool_calls s') = length (tool_calls s) + k" by simp
  with Suc [of s'] b show ?case by simp
qed

section \<open>The iteration budget\<close>

lemma strip_pipeline_request: "strip pipeline_request_text = pipeline_request_text"
  by (simp add: strip_def isspace_def pipeline_request_text_def)

lemma loads_pipeline_request: "map_of parse_table pipeline_request_text = Some pipeline_request"
  by (simp add: parse_table_def scenario_texts)

lemma parse_pipeline_request:
  "try_parse_tool_request (scripted rs parse_table tools present) pipeline_request_text
     = Inr (Some pipeline_request)"
proof -
  have "startswith pipeline_request_text ''{''" "endswith pipeline_request_text ''}''"
    by (simp_all add: startswith_def endswith_def pipeline_request_text_def)
  then show ?thesis
    by (simp add: try_parse_tool_request_def strip_pipeline_request scripted_def loads_of_def
        loads_pipeline_request pipeline_request_def)
qed

lemma serve_pipeline:
  "serve catalog_ps answer n (JStr ''get_pipeline_summary'') a = Inr answer"
  by (simp add: serve_def catalog_ps_def catalog_lvl3_def)

lemma chatty_body_lvl3:
  "fst (loop_body_lvl3 chatty_env s) = Continue
   \<and> length (tool_calls (snd (loop_body_lvl3 chatty_env s))) = length (tool_calls s) + 2"
proof -
  have r: "\<And>n p. strip (ollama_run chatty_env n p) = pipeline_request_text"
    by (simp add: chatty_env_def scripted_def loads_of_def strip_pipeline_request)
  have p: "try_parse_tool_request chatty_env pipeline_request_text = Inr (Some pipeline_request)"
    unfolding chatty_env_def by (rule parse_pipeline_request)
  have c: "\<And>n a. client_call_tool chatty_env n (JStr ''get_pipeline_summary'') a = Inr deals_text"
    by (simp add: chatty_env_def scripted_def loads_of_def serve_pipeline)
  show ?thesis
    by (simp add: loop_body_lvl3_def ask_model_for_next_action_lvl3_def
        ask_model_after_tool_lvl3_def call_llm_def r p c pipeline_request_def
        call_mcp_tool_def chain_second_tool_def append_turn_def)
qed


lemma status_not_override: "\<not> override_matches ''status of deals?''"
  by (simp add: override_matches_def lower_def ascii_lower_def startswith_def)

lemma chatty_body_ps:
  "fst (loop_body_ps chatty_env s) = Continue"
proof -
  have r: "\<And>n p. strip (ollama_run chatty_env n p) = pipeline_request_text"
    by (simp add: chatty_env_def scripted_def loads_of_def strip_pipeline_request)
  have p: "try_parse_tool_request chatty_env pipeline_request_text = Inr (Some pipeline_request)"
    unfolding chatty_env_def by (rule parse_pipeline_request)
  have c: "\<And>n a. client_call_tool chatty_env n (JStr ''get_pipeline_summary'') a = Inr deals_text"
    by (simp add: chatty_env_def scripted_def loads_of_def serve_pipeline)
  have x: "server_path_exists chatty_env" by (simp add: chatty_env_def scripted_def loads_of_def)
  have ne: "pipeline_request_text \<noteq> []" by (simp add: pipeline_request_text_def)
  have b: "startswith pipeline_request_text ''{''" "endswith pipeline_request_text ''}''"
    by (simp_all add: startswith_def endswith_def pipeline_request_text_def)
  show ?thesis
    by (simp add: loop_body_ps_def first_reply_ps_def ask_model_for_next_action_ps_def
        reply_after_tool_ps_def ask_model_after_tool_ps_def call_llm_def r p c x ne b
        strip_pipeline_request pipeline_request_def maybe_persist_task_def
        call_mcp_tool_ps_def chain_second_tool_def append_turn_def)
qed

lemma loop_lvl3_calls:
  "length (tool_calls (snd (while_steps (loop_body_lvl3 e) n s))) \<le> length (tool_calls s) + 2 * n"
  by (rule while_steps_calls) (rule loop_body_lvl3_two_calls)

lemma loop_lvl3_effect:
  "\<exists>zs hs. tool_calls (snd (while_steps (loop_body_lvl3 e) n s)) = tool_calls s @ zs
      \<and> length zs \<le> 3 * n
      \<and> conversation_history (snd (while_steps (loop_body_lvl3 e) n s))
          = conversation_history s @ hs
      \<and> (\<forall>a. fst (while_steps (loop_body_lvl3 e) n s) = Inr a \<longrightarrow>
            (\<exists>rs. length rs \<le> n
                \<and> rounds_logged e (tool_calls (snd (while_steps (loop_body_lvl3 e) n s)))
                      (length (tool_calls s)) rs
                \<and> hs = concat (map (round_turns e) rs)
                         @ [\<lparr>role = Assistant, content = a\<rparr>]))"
  by (rule while_steps_effect) (rule loop_body_lvl3_effect)

lemma loop_ps_effect:
  "\<exists>zs hs. tool_calls (snd (while_steps (loop_body_ps e) n s)) = tool_calls s @ zs
      \<and> length zs \<le> 3 * n
      \<and> conversation_history (snd (while_steps (loop_body_ps e) n s))
          = conversation_history s @ hs
      \<and> (\<forall>a. fst (while_steps (loop_body_ps e) n s) = Inr a \<longrightarrow>
            (\<exists>rs. length rs \<le> n
                \<and> rounds_logged e (tool_calls (snd (while_steps (loop_body_ps e) n s)))
                      (length (tool_calls s)) rs
                \<and> hs = concat (map (round_turns e) rs)
                         @ [\<lparr>role = Assistant, content = a\<rparr>]))"
  by (rule while_steps_effect) (rule loop_body_ps_effect)

text \<open>
  C2, amended. The ceiling \<^verbatim>\<open>max_steps = 5\<close> counts passes through the loop body, not tool
  executions. A pass sends up to two tool requests the engine asked for, and in
  Agent_Pstorage one more \<^verbatim>\<open>record_task\<close> request of the persistence helper. So in one
  user turn at most 10 tool requests are sent in Lvl3Agent and at most 15 in
  Agent_Pstorage (one on its override path); and whenever all five passes end without
  an answer, the returned string is the fixed exhaustion message.
\<close>

theorem tool_calls_per_turn_bounded:
  "length (tool_calls (snd (run_agent_turn_async_lvl3 e user_text s))) \<le> length (tool_calls s) + 10
   \<and> length (tool_calls (snd (run_agent_turn_async_ps e user_text s))) \<le> length (tool_calls s) + 15
   \<and> (exhausts (loop_body_lvl3 e) max_steps (append_turn User user_text s) \<longrightarrow>
        fst (run_agent_turn_async_lvl3 e user_text s) = Inr safety_msg)
   \<and> (\<not> override_matches user_text
        \<and> exhausts (loop_body_ps e) max_steps (append_turn User user_text s) \<longrightarrow>
        fst (run_agent_turn_async_ps e user_text s) = Inr safety_msg)"
proof (intro conjI impI)
  let ?s0 = "append_turn User user_text s"
  have t0: "tool_calls ?s0 = tool_calls s" by (simp add: append_turn_def)
  from loop_lvl3_calls [of e max_steps ?s0]
  show "length (tool_calls (snd (run_agent_turn_async_lvl3 e user_text s)))
      \<le> length (tool_calls s) + 10"
    by (simp add: run_agent_turn_async_lvl3_def max_steps_def t0)
  show "length (tool_calls (snd (run_agent_turn_async_ps e user_text s)))
      \<le> length (tool_calls s) + 15"
  proof (cases "override_matches user_text")
    case True
    obtain r s' where o: "pipeline_override e ?s0 = (r, s')" by (cases "pipeline_override e ?s0")
    then have "length (tool_calls s') \<le> Suc (length (tool_calls ?s0))"
      unfolding pipeline_override_def
      by (auto split: prod.splits sum.splits if_splits
          dest!: call_mcp_tool_ps_effect after_ps_effect)
    with True o t0 show ?thesis by (simp add: run_agent_turn_async_ps_def)
  next
    case False
    from loop_ps_effect [of e max_steps ?s0]
    show ?thesis using False
      by (auto simp: run_agent_turn_async_ps_def max_steps_def t0)
  qed
next
  assume "exhausts (loop_body_lvl3 e) max_steps (append_turn User user_text s)"
  then show "fst (run_agent_turn_async_lvl3 e user_text s) = Inr safety_msg"
    by (simp add: run_agent_turn_async_lvl3_def while_steps_exhausts)
next
  assume "\<not> override_matches user_text
      \<and> exhausts (loop_body_ps e) max_steps (append_turn User user_text s)"
  then show "fst (run_agent_turn_async_ps e user_text s) = Inr safety_msg"
    by (simp add: run_agent_turn_async_ps_def while_steps_exhausts)
qed

text \<open>
  C2, as the claim states it, fails: when the engine answers every prompt with a tool
  request, one user turn of Lvl3Agent executes ten tools, twice the ceiling of 5.
\<close>

theorem ten_tool_calls_in_one_turn:
  "length (tool_calls (snd (run_agent_turn_async_lvl3 chatty_env ''status of deals?'' state0))) = 10"
proof -
  have "length (tool_calls (snd (while_steps (loop_body_lvl3 chatty_env) max_steps
            (append_turn User ''status of deals?'' state0))))
      = length (tool_calls (append_turn User ''status of deals?'' state0)) + 2 * max_steps"
    by (rule while_steps_count) (simp_all add: chatty_body_lvl3)
  then show ?thesis
    by (simp add: run_agent_turn_async_lvl3_def max_steps_def append_turn_def state0_def)
qed

text \<open>
  The amended C2 at that run: both variants stay within their bounds, the loop runs out
  and the exhaustion message is returned.
\<close>

theorem tool_calls_per_turn_bounded_witness:
  "length (tool_calls (snd (run_agent_turn_async_lvl3 chatty_env ''status of deals?'' state0))) \<le> 10
   \<and> length (tool_calls (snd (run_agent_turn_async_ps chatty_env ''status of deals?'' state0))) \<le> 15
   \<and> fst (run_agent_turn_async_lvl3 chatty_env ''status of deals?'' state0) = Inr safety_msg
   \<and> fst (run_agent_turn_async_ps chatty_env ''status of deals?'' state0) = Inr safety_msg"
proof -
  have l: "exhausts (loop_body_lvl3 chatty_env) max_steps
      (append_turn User ''status of deals?'' state0)"
    by (rule exhausts_always_continue) (simp add: chatty_body_lvl3)
  have p: "exhausts (loop_body_ps chatty_env) max_steps
      (append_turn User ''status of deals?'' state0)"
    by (rule exhausts_always_continue) (simp add: chatty_body_ps)
  from tool_calls_per_turn_bounded [of chatty_env "''status of deals?''" state0]
    l p status_not_override
  show ?thesis by (simp add: state0_def)
qed

section \<open>The first tool request of a turn\<close>

lemma final_answer_tools: "tool_calls (snd (final_answer r s)) = tool_calls s"
  by (simp add: final_answer_def append_turn_def)

lemma chain_lvl3_tools:
  assumes "tool_calls s = xs @ [c]"
  shows "\<exists>zs. tool_calls (snd (chain_second_tool e call_mcp_tool p s)) = xs @ c # zs"
  using chain_lvl3_effect [of e p s "fst (chain_second_tool e call_mcp_tool p s)"
      "snd (chain_second_tool e call_mcp_tool p s)"] assms
  by auto

lemma chain_ps_tools:
  assumes "tool_calls s = xs @ c # ys"
  shows "\<exists>zs. tool_calls (snd (chain_second_tool e call_mcp_tool_ps p s)) = xs @ c # zs"
  using chain_ps_effect [of e p s "fst (chain_second_tool e call_mcp_tool_ps p s)"
      "snd (chain_second_tool e call_mcp_tool_ps p s)"] assms
  by auto

lemma loop_body_lvl3_first_call:
  assumes "try_parse_tool_request e (fst (ask_model_for_next_action_lvl3 e s)) = Inr (Some req)"
  shows "\<exists>tn ta zs. subscript req ''tool'' = Inr tn \<and> subscript req ''arguments'' = Inr ta
           \<and> tool_calls (snd (loop_body_lvl3 e s)) = tool_calls s @ (tn, ta) # zs"
proof -
  from try_parse_tool_request_subscripts [OF assms] obtain tn a where
    sub: "subscript req ''tool'' = Inr tn" "subscript req ''arguments'' = Inr (JObj a)" by blast
  obtain r s1 where ask: "ask_model_for_next_action_lvl3 e s = (r, s1)"
    by (cases "ask_model_for_next_action_lvl3 e s")
  with assms have p: "try_parse_tool_request e r = Inr (Some req)" by simp
  from ask_lvl3_effect [OF ask] have s1: "tool_calls s1 = tool_calls s" by simp
  obtain out s2 where call: "call_mcp_tool e tn (JObj a) s1 = (out, s2)"
    by (cases "call_mcp_tool e tn (JObj a) s1")
  from call_mcp_tool_effect [OF call] s1
  have s2: "tool_calls s2 = tool_calls s @ [(tn, JObj a)]" by simp
  have "\<exists>zs. tool_calls (snd (loop_body_lvl3 e s)) = tool_calls s @ (tn, JObj a) # zs"
    unfolding loop_body_lvl3_def using ask p sub call s2
    by (auto simp: final_answer_tools split: prod.splits option.splits sum.splits
        dest!: after_lvl3_effect intro!: chain_lvl3_tools)
  with sub show ?thesis by blast
qed


lemma loop_body_ps_first_call:
  assumes "try_parse_tool_request e (fst (first_reply_ps e s)) = Inr (Some req)"
    and "server_path_exists e"
  shows "\<exists>tn ta zs. subscript req ''tool'' = Inr tn \<and> subscript req ''arguments'' = Inr ta
           \<and> tool_calls (snd (loop_body_ps e s)) = tool_calls s @ (tn, ta) # zs"
proof -
  from try_parse_tool_request_subscripts [OF assms(1)] obtain tn a where
    sub: "subscript req ''tool'' = Inr tn" "subscript req ''arguments'' = Inr (JObj a)" by blast
  obtain r s1 where ask: "first_reply_ps e s = (r, s1)"
    by (cases "first_reply_ps e s")
  with assms have p: "try_parse_tool_request e r = Inr (Some req)" by simp
  from first_reply_ps_effect [OF ask] have s1: "tool_calls s1 = tool_calls s" by simp
  obtain out s2 where call: "call_mcp_tool_ps e tn (JObj a) s1 = (out, s2)"
    by (cases "call_mcp_tool_ps e tn (JObj a) s1")
  from call assms(2) s1
  have s2: "tool_calls s2 = tool_calls s @ [(tn, JObj a)]"
    by (auto simp: call_mcp_tool_ps_def)
  have "\<exists>zs. tool_calls (snd (loop_body_ps e s)) = tool_calls s @ (tn, JObj a) # zs"
    unfolding loop_body_ps_def using ask p sub call s2
    by (auto simp: final_answer_tools split: prod.splits option.splits sum.splits
        dest!: reply_after_tool_ps_effect maybe_persist_task_effect intro!: chain_ps_tools)
  with sub show ?thesis by blast
qed




lemma while_steps_tools_prefix:
  assumes body: "\<And>s oc s'. body s = (oc, s') \<Longrightarrow> pass_effect e k s oc s'"
    and first: "tool_calls (snd (body s)) = xs @ zs"
  shows "prefix xs (tool_calls (snd (while_steps body (Suc n) s)))"
proof (cases "body s")
  case (Pair oc s')
  show ?thesis
  proof (cases oc)
    case (Returned r)
    with Pair first show ?thesis by simp
  next
    case Continue
    from while_steps_effect [of body e k n s', OF body] obtain zs' where
      "tool_calls (snd (while_steps body n s')) = tool_calls s' @ zs'" by blast
    with Pair Continue first show ?thesis by simp
  qed
qed

section \<open>The safety gate\<close>

lemma strip_create_request: "strip create_request_text = create_request_text"
  by (simp add: strip_def isspace_def create_request_text_def)


lemma loads_create_request: "map_of parse_table create_request_text = Some create_request"
  by (simp add: parse_table_def scenario_texts)


lemma parse_create_request:
  "try_parse_tool_request (scripted rs parse_table tools present) create_request_text
     = Inr (Some create_request)"
proof -
  have "startswith create_request_text ''{''" "endswith create_request_text ''}''"
    by (simp_all add: startswith_def endswith_def create_request_text_def)
  then show ?thesis
    by (simp add: try_parse_tool_request_def strip_create_request scripted_def loads_of_def
        loads_create_request create_request_def create_arguments_def)
qed


lemma strip_task_created:
  "strip ''The task for Lopez has been created.'' = ''The task for Lopez has been created.''"
  by (simp add: strip_def isspace_def)

lemma parse_task_created:
  "try_parse_tool_request e ''The task for Lopez has been created.'' = Inr None"
  by (simp add: try_parse_tool_request_def strip_task_created startswith_def)

lemma assign_not_override: "\<not> override_matches assign_text"
  by (simp add: override_matches_def assign_text_def lower_def ascii_lower_def startswith_def)

lemma eager_first_reply_lvl3:
  "fst (ask_model_for_next_action_lvl3 eager_env (append_turn User assign_text state0))
     = create_request_text"
  by (simp add: ask_model_for_next_action_lvl3_def call_llm_def eager_env_def scripted_def loads_of_def
      append_turn_def state0_def strip_create_request)

lemma eager_first_reply_ps:
  "fst (first_reply_ps eager_env (append_turn User assign_text state0)) = create_request_text"
proof -
  have "create_request_text \<noteq> []" by (simp add: create_request_text_def)
  then show ?thesis
    by (simp add: first_reply_ps_def ask_model_for_next_action_ps_def call_llm_def eager_env_def
        scripted_def loads_of_def append_turn_def state0_def strip_create_request)
qed

lemma eager_parse: "try_parse_tool_request eager_env create_request_text = Inr (Some create_request)"
  unfolding eager_env_def by (rule parse_create_request)

text \<open>
  Between the classifier and the tool transport the controllers of Lvl3Agent and
  Agent_Pstorage have no check: whatever the history holds, when the first reply of a
  turn parses as a tool request, the named tool is sent to the transport as the next
  tool request (in Agent_Pstorage on the path without the pipeline override, with the
  server file present).
\<close>

lemma first_tool_request_is_executed:
  "(\<forall>req. try_parse_tool_request e
            (fst (ask_model_for_next_action_lvl3 e (append_turn User user_text s))) = Inr (Some req) \<longrightarrow>
      (\<exists>tn ta. subscript req ''tool'' = Inr tn \<and> subscript req ''arguments'' = Inr ta
         \<and> prefix (tool_calls s @ [(tn, ta)])
              (tool_calls (snd (run_agent_turn_async_lvl3 e user_text s)))))
   \<and> (\<forall>req. \<not> override_matches user_text \<and> server_path_exists e
         \<and> try_parse_tool_request e (fst (first_reply_ps e (append_turn User user_text s)))
             = Inr (Some req) \<longrightarrow>
      (\<exists>tn ta. subscript req ''tool'' = Inr tn \<and> subscript req ''arguments'' = Inr ta
         \<and> prefix (tool_calls s @ [(tn, ta)])
              (tool_calls (snd (run_agent_turn_async_ps e user_text s)))))"
proof (intro conjI allI impI)
  let ?s0 = "append_turn User user_text s"
  have t0: "tool_calls ?s0 = tool_calls s" by (simp add: append_turn_def)
  fix req
  assume p: "try_parse_tool_request e (fst (ask_model_for_next_action_lvl3 e ?s0)) = Inr (Some req)"
  from loop_body_lvl3_first_call [OF p] obtain tn ta zs where
    sub: "subscript req ''tool'' = Inr tn" "subscript req ''arguments'' = Inr ta"
    and tc: "tool_calls (snd (loop_body_lvl3 e ?s0)) = (tool_calls s @ [(tn, ta)]) @ zs"
    using t0 by auto
  have "prefix (tool_calls s @ [(tn, ta)])
      (tool_calls (snd (while_steps (loop_body_lvl3 e) (Suc 4) ?s0)))"
    by (rule while_steps_tools_prefix [where body = "loop_body_lvl3 e" and e = e and k = 3 and zs = zs])
      (rule loop_body_lvl3_effect, assumption, rule tc)
  with sub show "\<exists>tn ta. subscript req ''tool'' = Inr tn \<and> subscript req ''arguments'' = Inr ta
      \<and> prefix (tool_calls s @ [(tn, ta)])
           (tool_calls (snd (run_agent_turn_async_lvl3 e user_text s)))"
    by (auto simp: run_agent_turn_async_lvl3_def max_steps_def eval_nat_numeral)
next
  let ?s0 = "append_turn User user_text s"
  have t0: "tool_calls ?s0 = tool_calls s" by (simp add: append_turn_def)
  fix req
  assume a: "\<not> override_matches user_text \<and> server_path_exists e
      \<and> try_parse_tool_request e (fst (first_reply_ps e ?s0)) = Inr (Some req)"
  then have p: "try_parse_tool_request e (fst (first_reply_ps e ?s0)) = Inr (Some req)"
    and x: "server_path_exists e" by simp_all
  from loop_body_ps_first_call [OF p x] obtain tn ta zs where
    sub: "subscript req ''tool'' = Inr tn" "subscript req ''arguments'' = Inr ta"
    and tc: "tool_calls (snd (loop_body_ps e ?s0)) = (tool_calls s @ [(tn, ta)]) @ zs"
    using t0 by auto
  have "prefix (tool_calls s @ [(tn, ta)])
      (tool_calls (snd (while_steps (loop_body_ps e) (Suc 4) ?s0)))"
    by (rule while_steps_tools_prefix [where body = "loop_body_ps e" and e = e and k = 3 and zs = zs])
      (rule loop_body_ps_effect, assumption, rule tc)
  with sub a show "\<exists>tn ta. subscript req ''tool'' = Inr tn \<and> subscript req ''arguments'' = Inr ta
      \<and> prefix (tool_calls s @ [(tn, ta)])
           (tool_calls (snd (run_agent_turn_async_ps e user_text s)))"
    by (auto simp: run_agent_turn_async_ps_def max_steps_def eval_nat_numeral)
qed

text \<open>
  C1. The claim: no mutating tool runs unless a Turn before the user Turn holds a
  confirmation, and the controller itself refuses the request otherwise. The docstrings
  of \<^verbatim>\<open>create_work_item\<close> say the same (``Requires confirmation from user BEFORE the agent
  is allowed to call this tool''), but the controllers never look: with an empty history
  (no Turn before the user Turn, so nothing confirmed), the user text
  \<^verbatim>\<open>assign Lopez a task to chase the rent roll\<close> and an engine that answers at once with a
  \<^verbatim>\<open>create_work_item\<close> request, Lvl3Agent executes the mutating tool and returns the
  engine's next reply, not a clarification; Agent_Pstorage executes it too, and
  \<^verbatim>\<open>record_task\<close> after it.
\<close>

theorem mutating_tool_executed_unconfirmed:
  "conversation_history state0 = []
   \<and> run_agent_turn_async_lvl3 eager_env assign_text state0 =
       (Inr ''The task for Lopez has been created.'',
        \<lparr>conversation_history =
           [\<lparr>role = User, content = assign_text\<rparr>,
            \<lparr>role = Assistant, content = ''The task for Lopez has been created.''\<rparr>],
         llm_calls = 2,
         tool_calls = [(JStr ''create_work_item'', create_arguments)]\<rparr>)
   \<and> run_agent_turn_async_ps eager_env assign_text state0 =
       (Inr ''The task for Lopez has been created.'',
        \<lparr>conversation_history =
           [\<lparr>role = User, content = assign_text\<rparr>,
            \<lparr>role = Assistant, content = ''The task for Lopez has been created.''\<rparr>],
         llm_calls = 2,
         tool_calls =
           [(JStr ''create_work_item'', create_arguments),
            (JStr ''record_task'',
             JObj [(''borrower'', JStr ''ACME Industrial LLC''), (''officer'', JStr ''Lopez''),
                   (''note'', JStr ''Get updated rent roll ASAP''), (''status'', JStr ''open''),
                   (''task_id'', JStr ''T-1'')])]\<rparr>)"
proof -
  have c: "\<And>n a. client_call_tool eager_env n (JStr ''create_work_item'') a = Inr created_text"
    "\<And>n a. client_call_tool eager_env n (JStr ''record_task'') a = Inr created_text"
    by (simp_all add: eager_env_def scripted_def serve_def catalog_ps_def catalog_lvl3_def)
  have r0: "\<And>p. strip (ollama_run eager_env 0 p) = create_request_text"
    by (simp add: eager_env_def scripted_def strip_create_request)
  have r1: "\<And>p. strip (ollama_run eager_env (Suc 0) p) = ''The task for Lopez has been created.''"
    by (simp add: eager_env_def scripted_def strip_task_created)
  have x: "server_path_exists eager_env" by (simp add: eager_env_def scripted_def)
  have l: "json_loads eager_env created_text
      = Inr (JObj [(''task_id'', JStr ''T-1''), (''status'', JStr ''created'')])"
    by (simp add: eager_env_def scripted_def loads_of_def loads_created)
  have ne: "create_request_text \<noteq> []" by (simp add: create_request_text_def)
  have nb: "\<not> startswith ''The task for Lopez has been created.'' ''{''"
    by (simp add: startswith_def)
  have lvl3: "run_agent_turn_async_lvl3 eager_env assign_text state0 =
       (Inr ''The task for Lopez has been created.'',
        \<lparr>conversation_history =
           [\<lparr>role = User, content = assign_text\<rparr>,
            \<lparr>role = Assistant, content = ''The task for Lopez has been created.''\<rparr>],
         llm_calls = 2,
         tool_calls = [(JStr ''create_work_item'', create_arguments)]\<rparr>)"
    by (simp add: run_agent_turn_async_lvl3_def max_steps_def eval_nat_numeral
        loop_body_lvl3_def ask_model_for_next_action_lvl3_def ask_model_after_tool_lvl3_def
        call_llm_def call_mcp_tool_def state0_def append_turn_def r0 r1 eager_parse c
        create_request_def parse_task_created final_answer_def strip_task_created)
  have ps: "run_agent_turn_async_ps eager_env assign_text state0 =
       (Inr ''The task for Lopez has been created.'',
        \<lparr>conversation_history =
           [\<lparr>role = User, content = assign_text\<rparr>,
            \<lparr>role = Assistant, content = ''The task for Lopez has been created.''\<rparr>],
         llm_calls = 2,
         tool_calls =
           [(JStr ''create_work_item'', create_arguments),
            (JStr ''record_task'',
             JObj [(''borrower'', JStr ''ACME Industrial LLC''), (''officer'', JStr ''Lopez''),
                   (''note'', JStr ''Get updated rent roll ASAP''), (''status'', JStr ''open''),
                   (''task_id'', JStr ''T-1'')])]\<rparr>)"
    by (simp add: run_agent_turn_async_ps_def assign_not_override max_steps_def eval_nat_numeral
        loop_body_ps_def first_reply_ps_def ask_model_for_next_action_ps_def
        reply_after_tool_ps_def ask_model_after_tool_ps_def call_llm_def call_mcp_tool_ps_def
        maybe_persist_task_def persist_args_def persist_task_id_def l
        state0_def append_turn_def r0 r1 eager_parse c x ne nb
        strip_create_request strip_task_created parse_task_created create_request_def
        create_arguments_def final_answer_def)
  from lvl3 ps show ?thesis by (simp add: state0_def)
qed

section \<open>Unknown tools and faults of the tool transport\<close>








section \<open>The pipeline override of Agent_Pstorage\<close>

lemma pipeline_override_effect:
  assumes "pipeline_override e s = (r, s')"
  shows "conversation_history s' = conversation_history s
         \<and> (\<exists>zs. tool_calls s' = tool_calls s @ zs \<and> length zs \<le> 1)"
  using assms unfolding pipeline_override_def
  by (auto split: prod.splits sum.splits if_splits
      dest!: call_mcp_tool_ps_effect after_ps_effect)

lemma pipeline_question_override: "override_matches pipeline_question"
  by (simp add: override_matches_def pipeline_question_def lower_def ascii_lower_def
      startswith_def)

lemma strip_Nil: "strip [] = []"
  by (simp add: strip_def)

lemma silent_reply: "strip (ollama_run silent_env n p) = []"
  by (simp add: silent_env_def scripted_def loads_of_def strip_def)

lemma silent_serves_get_tasks:
  "client_call_tool silent_env n (JStr ''get_tasks'') a = Inr tasks_text"
  by (simp add: silent_env_def scripted_def loads_of_def serve_def catalog_ps_def catalog_lvl3_def)

lemma silent_get_tasks:
  "client_call_tool silent_env n override_tool_name override_tool_args = Inr tasks_text"
  by (simp add: override_tool_name_def silent_serves_get_tasks)

lemma silent_override_run:
  "run_agent_turn_async_ps silent_env pipeline_question state0 =
     (Inr ''No tasks found.'',
      \<lparr>conversation_history = [\<lparr>role = User, content = pipeline_question\<rparr>],
       llm_calls = 2,
       tool_calls = [(JStr ''get_tasks'', JObj [(''status'', JStr ''open'')])]\<rparr>)"
proof -
  have x: "server_path_exists silent_env" by (simp add: silent_env_def scripted_def loads_of_def)
  show ?thesis
    by (simp add: run_agent_turn_async_ps_def pipeline_question_override pipeline_override_def
        call_mcp_tool_ps_def x silent_serves_get_tasks ask_model_after_tool_ps_def call_llm_def
        silent_reply state0_def append_turn_def override_tool_name_def override_tool_args_def
        strip_Nil Let_def)
qed

text \<open>
  C5, as the claim states it, fails: the override path has no third ask and no fallback
  to the raw tool result. When the engine stays silent, the controller asks twice and
  returns the fixed text \<^verbatim>\<open>No tasks found.\<close>, which is not the tool output.
\<close>

theorem override_gives_up_after_two_asks:
  "run_agent_turn_async_ps silent_env pipeline_question state0 =
     (Inr ''No tasks found.'',
      \<lparr>conversation_history = [\<lparr>role = User, content = pipeline_question\<rparr>],
       llm_calls = 2,
       tool_calls = [(JStr ''get_tasks'', JObj [(''status'', JStr ''open'')])]\<rparr>)
   \<and> tasks_text \<noteq> ''No tasks found.''"
  by (simp add: silent_override_run) (simp add: tasks_text_def)

text \<open>
  C5, amended. For every user text that contains \<^verbatim>\<open>pipeline\<close> or \<^verbatim>\<open>queue\<close> (ASCII case
  ignored), when \<^verbatim>\<open>mcp_server.py\<close> is present and the tool transport returns a result for
  the request: the override path sends exactly one fixed tool request, \<^verbatim>\<open>get_tasks\<close>
  with status \<^verbatim>\<open>open\<close>; it asks the engine once, with the follow-up prompt of
  \<^verbatim>\<open>_ask_model_after_tool\<close> over the tool result followed by the instruction
  \<^verbatim>\<open>Please summarize these tasks in plain English, grouped by officer if helpful.\<close>,
  and, only when the stripped reply is empty, once more, with the tool result followed
  by the shorter instruction \<^verbatim>\<open>Summarize in plain English.\<close>; it returns the first
  non-empty stripped reply as it is, whether or not it is JSON, and the fixed text
  \<^verbatim>\<open>No tasks found.\<close> when both are empty.
\<close>

theorem override_path_summary:
  assumes "override_matches user_text"
    and "server_path_exists e"
    and "client_call_tool e (length (tool_calls s))
           (JStr ''get_tasks'') (JObj [(''status'', JStr ''open'')]) = Inr tool_output"
  shows "let history = conversation_history s @ [\<lparr>role = User, content = user_text\<rparr>];
             ask = (\<lambda>n instruction.
                      strip (ollama_run e n
                        (build_prompt
                          (messages_after_tool_ps e history
                             (JStr ''get_tasks'') (JObj [(''status'', JStr ''open'')])
                             (tool_output @ instruction)))));
             a1 = ask (llm_calls s)
                    ''\<newline>\<newline>Please summarize these tasks in plain English, grouped by officer if helpful.'';
             a2 = ask (Suc (llm_calls s)) ''\<newline>\<newline>Summarize in plain English.'';
             R = run_agent_turn_async_ps e user_text s
         in tool_calls (snd R)
              = tool_calls s @ [(JStr ''get_tasks'', JObj [(''status'', JStr ''open'')])]
            \<and> fst R = Inr (if a1 \<noteq> [] then a1 else if a2 \<noteq> [] then a2 else ''No tasks found.'')
            \<and> llm_calls (snd R) = (if a1 \<noteq> [] then llm_calls s + 1 else llm_calls s + 2)
            \<and> length ''\<newline>\<newline>Summarize in plain English.''
                < length ''\<newline>\<newline>Please summarize these tasks in plain English, grouped by officer if helpful.''"
  using assms
  unfolding run_agent_turn_async_ps_def pipeline_override_def Let_def
    ask_model_after_tool_ps_def call_llm_def call_mcp_tool_ps_def
    override_summary_instruction_def override_retry_instruction_def
  by (auto simp: append_turn_def override_tool_name_def override_tool_args_def strip_strip)

text \<open>
  The amended C5 at a run whose engine answers the first ask with JSON: the JSON text
  is returned as it is, after one tool request and one ask.
\<close>

theorem override_path_summary_witness:
  "tool_calls (snd (run_agent_turn_async_ps chatty_env pipeline_question state0))
     = [(JStr ''get_tasks'', JObj [(''status'', JStr ''open'')])]
   \<and> fst (run_agent_turn_async_ps chatty_env pipeline_question state0)
     = Inr pipeline_request_text
   \<and> llm_calls (snd (run_agent_turn_async_ps chatty_env pipeline_question state0)) = 1"
proof -
  have x: "server_path_exists chatty_env" by (simp add: chatty_env_def scripted_def)
  have c: "client_call_tool chatty_env (length (tool_calls state0))
      (JStr ''get_tasks'') (JObj [(''status'', JStr ''open'')]) = Inr deals_text"
    by (simp add: chatty_env_def scripted_def serve_def catalog_ps_def catalog_lvl3_def)
  have r: "\<And>n p. strip (ollama_run chatty_env n p) = pipeline_request_text"
    by (simp add: chatty_env_def scripted_def strip_pipeline_request)
  have ne: "pipeline_request_text \<noteq> []" by (simp add: pipeline_request_text_def)
  from override_path_summary [of pipeline_question chatty_env state0 deals_text,
      OF pipeline_question_override x c]
  show ?thesis by (simp add: Let_def r ne state0_def)
qed

section \<open>The conversation store\<close>

lemma strip_two_deals: "strip ''Two deals are open.'' = ''Two deals are open.''"
  by (simp add: strip_def isspace_def)

lemma parse_two_deals: "try_parse_tool_request e ''Two deals are open.'' = Inr None"
  by (simp add: try_parse_tool_request_def strip_two_deals startswith_def)

lemma one_tool_run:
  "run_agent_turn_async_ps one_tool_env ''status of deals?'' state0 =
     (Inr ''Two deals are open.'',
      \<lparr>conversation_history =
         [\<lparr>role = User, content = ''status of deals?''\<rparr>,
          \<lparr>role = Assistant, content = ''Two deals are open.''\<rparr>],
       llm_calls = 2,
       tool_calls = [(JStr ''get_pipeline_summary'', JObj [])]\<rparr>)"
proof -
  have p: "try_parse_tool_request one_tool_env pipeline_request_text = Inr (Some pipeline_request)"
    unfolding one_tool_env_def by (rule parse_pipeline_request)
  have c: "\<And>n a. client_call_tool one_tool_env n (JStr ''get_pipeline_summary'') a = Inr deals_text"
    by (simp add: one_tool_env_def scripted_def loads_of_def serve_pipeline)
  have x: "server_path_exists one_tool_env" by (simp add: one_tool_env_def scripted_def loads_of_def)
  have r0: "\<And>p. strip (ollama_run one_tool_env 0 p) = pipeline_request_text"
    by (simp add: one_tool_env_def scripted_def loads_of_def strip_pipeline_request)
  have r1: "\<And>p. strip (ollama_run one_tool_env (Suc 0) p) = ''Two deals are open.''"
    by (simp add: one_tool_env_def scripted_def loads_of_def strip_two_deals)
  have ne: "pipeline_request_text \<noteq> []" by (simp add: pipeline_request_text_def)
  have nb: "\<not> startswith ''Two deals are open.'' ''{''" by (simp add: startswith_def)
  show ?thesis
    by (simp add: run_agent_turn_async_ps_def status_not_override max_steps_def eval_nat_numeral
        loop_body_ps_def first_reply_ps_def ask_model_for_next_action_ps_def
        reply_after_tool_ps_def ask_model_after_tool_ps_def call_llm_def call_mcp_tool_ps_def
        maybe_persist_task_def state0_def append_turn_def r0 r1 p c x ne nb
        strip_pipeline_request strip_two_deals parse_two_deals pipeline_request_def
        final_answer_def)
qed

text \<open>
  C6, as the claim states it, fails twice in Agent_Pstorage. On the override path the
  returned answer is not appended: the history ends with the user Turn. And the first
  tool call of a pass leaves no Turn: a turn that executes one tool and then answers
  gains the user Turn and the answer, with no request or result Turn.
\<close>

theorem answer_and_tool_turns_missing:
  "fst (run_agent_turn_async_ps silent_env pipeline_question state0) = Inr ''No tasks found.''
   \<and> conversation_history (snd (run_agent_turn_async_ps silent_env pipeline_question state0))
       = [\<lparr>role = User, content = pipeline_question\<rparr>]
   \<and> tool_calls (snd (run_agent_turn_async_ps one_tool_env ''status of deals?'' state0))
       = [(JStr ''get_pipeline_summary'', JObj [])]
   \<and> conversation_history (snd (run_agent_turn_async_ps one_tool_env ''status of deals?'' state0))
       = [\<lparr>role = User, content = ''status of deals?''\<rparr>,
          \<lparr>role = Assistant, content = ''Two deals are open.''\<rparr>]"
  by (simp add: silent_override_run one_tool_run)

lemma chained_run:
  "run_agent_turn_async_ps chained_env ''status of deals?'' state0 =
     (Inr ''Two deals are open.'',
      \<lparr>conversation_history =
         [\<lparr>role = User, content = ''status of deals?''\<rparr>,
          \<lparr>role = Assistant, content = pipeline_request_text\<rparr>,
          \<lparr>role = System,
           content = tool_returned_text chained_env (JStr ''get_pipeline_summary'') deals_text\<rparr>,
          \<lparr>role = Assistant, content = ''Two deals are open.''\<rparr>],
       llm_calls = 4,
       tool_calls = [(JStr ''get_pipeline_summary'', JObj []),
                     (JStr ''get_pipeline_summary'', JObj [])]\<rparr>)"
proof -
  have p: "try_parse_tool_request chained_env pipeline_request_text = Inr (Some pipeline_request)"
    unfolding chained_env_def by (rule parse_pipeline_request)
  have c: "\<And>n a. client_call_tool chained_env n (JStr ''get_pipeline_summary'') a = Inr deals_text"
    by (simp add: chained_env_def scripted_def serve_pipeline)
  have x: "server_path_exists chained_env" by (simp add: chained_env_def scripted_def)
  have r0: "\<And>p. strip (ollama_run chained_env 0 p) = pipeline_request_text"
    by (simp add: chained_env_def scripted_def strip_pipeline_request)
  have r1: "\<And>p. strip (ollama_run chained_env (Suc 0) p) = pipeline_request_text"
    by (simp add: chained_env_def scripted_def strip_pipeline_request)
  have r2: "\<And>p. strip (ollama_run chained_env (Suc (Suc 0)) p) = pipeline_request_text"
    by (simp add: chained_env_def scripted_def strip_pipeline_request)
  have r3: "\<And>p. strip (ollama_run chained_env (Suc (Suc (Suc 0))) p) = ''Two deals are open.''"
    by (simp add: chained_env_def scripted_def strip_two_deals)
  have d: "json_dumps chained_env
      (JObj [(''tool'', JStr ''get_pipeline_summary''), (''arguments'', JObj [])])
      = pipeline_request_text"
    by (simp add: chained_env_def scripted_def parse_table_def create_request_def
        pipeline_request_def)
  have ne: "pipeline_request_text \<noteq> []" by (simp add: pipeline_request_text_def)
  have sb: "startswith pipeline_request_text ''{''" "endswith pipeline_request_text ''}''"
    by (simp_all add: pipeline_request_text_def startswith_def endswith_def)
  have nb: "\<not> startswith ''Two deals are open.'' ''{''" by (simp add: startswith_def)
  show ?thesis
    by (simp add: run_agent_turn_async_ps_def status_not_override max_steps_def eval_nat_numeral
        loop_body_ps_def first_reply_ps_def ask_model_for_next_action_ps_def
        reply_after_tool_ps_def ask_model_after_tool_ps_def call_llm_def call_mcp_tool_ps_def
        maybe_persist_task_def chain_second_tool_def state0_def append_turn_def
        r0 r1 r2 r3 p c x d ne sb nb
        strip_pipeline_request strip_two_deals parse_two_deals pipeline_request_def
        final_answer_def Let_def)
qed

lemma length_round_turns:
  "length (concat (map (round_turns e) rs)) = 2 * length rs"
  by (induction rs) (simp_all add: round_turns_def)

text \<open>
  C6, amended. In Agent_Pstorage the store only grows by appends: the history before a
  turn is a prefix of the history after it. For every turn that does not take the
  override path and returns a string, that string is the last Turn of the store, an
  assistant Turn; between the user Turn and it the store holds exactly the Turns of the
  recorded tool round-trips, in order, at most five of them. A recorded round-trip is an
  assistant Turn with \<^verbatim>\<open>json.dumps\<close> of a tool request followed by a system Turn with
  \<^verbatim>\<open>Tool '<name>' returned:\<close>, a line break and the result, where the name and the
  arguments are those of the request, the request was executed by the tool transport
  after the first tool request of its loop pass (as the second tool execution of the
  pass, or the third when \<^verbatim>\<open>record_task\<close> ran in between), and the result is what the
  transport returned for it. So the first tool request of a pass and its result are
  never appended to the store.
\<close>

theorem history_grows_by_appends:
  "prefix (conversation_history s)
     (conversation_history (snd (run_agent_turn_async_ps e user_text s)))
   \<and> (\<forall>a. \<not> override_matches user_text
           \<and> fst (run_agent_turn_async_ps e user_text s) = Inr a \<longrightarrow>
         (\<exists>rs. length rs \<le> max_steps
            \<and> rounds_logged e (tool_calls (snd (run_agent_turn_async_ps e user_text s)))
                  (length (tool_calls s)) rs
            \<and> conversation_history (snd (run_agent_turn_async_ps e user_text s))
                = conversation_history s @ [\<lparr>role = User, content = user_text\<rparr>]
                  @ concat (map (round_turns e) rs)
                  @ [\<lparr>role = Assistant, content = a\<rparr>]))"
proof (intro conjI allI impI)
  let ?s0 = "append_turn User user_text s"
  have h0: "conversation_history ?s0
      = conversation_history s @ [\<lparr>role = User, content = user_text\<rparr>]"
    by (simp add: append_turn_def)
  show "prefix (conversation_history s)
     (conversation_history (snd (run_agent_turn_async_ps e user_text s)))"
  proof (cases "override_matches user_text")
    case True
    obtain r s' where o: "pipeline_override e ?s0 = (r, s')" by (cases "pipeline_override e ?s0")
    from pipeline_override_effect [OF o] h0 True o show ?thesis
      by (simp add: run_agent_turn_async_ps_def)
  next
    case False
    from loop_ps_effect [of e max_steps ?s0] obtain hs where
      "conversation_history (snd (while_steps (loop_body_ps e) max_steps ?s0))
         = conversation_history ?s0 @ hs" by blast
    with False h0 show ?thesis by (simp add: run_agent_turn_async_ps_def)
  qed
next
  let ?s0 = "append_turn User user_text s"
  have h0: "conversation_history ?s0
      = conversation_history s @ [\<lparr>role = User, content = user_text\<rparr>]"
    "tool_calls ?s0 = tool_calls s"
    by (simp_all add: append_turn_def)
  fix a
  assume "\<not> override_matches user_text \<and> fst (run_agent_turn_async_ps e user_text s) = Inr a"
  then have run: "run_agent_turn_async_ps e user_text s = while_steps (loop_body_ps e) max_steps ?s0"
    and res: "fst (while_steps (loop_body_ps e) max_steps ?s0) = Inr a"
    by (auto simp: run_agent_turn_async_ps_def Let_def)
  from loop_ps_effect [of e max_steps ?s0] res obtain rs where
    "length rs \<le> max_steps"
    "rounds_logged e (tool_calls (snd (while_steps (loop_body_ps e) max_steps ?s0)))
       (length (tool_calls ?s0)) rs"
    "conversation_history (snd (while_steps (loop_body_ps e) max_steps ?s0))
       = conversation_history ?s0 @ concat (map (round_turns e) rs)
         @ [\<lparr>role = Assistant, content = a\<rparr>]"
    by auto
  with run h0 show "\<exists>rs. length rs \<le> max_steps
      \<and> rounds_logged e (tool_calls (snd (run_agent_turn_async_ps e user_text s)))
            (length (tool_calls s)) rs
      \<and> conversation_history (snd (run_agent_turn_async_ps e user_text s))
          = conversation_history s @ [\<lparr>role = User, content = user_text\<rparr>]
            @ concat (map (round_turns e) rs)
            @ [\<lparr>role = Assistant, content = a\<rparr>]"
    by auto
qed

text \<open>
  The amended C6 at a run of two passes: the first pass executes
  \<^verbatim>\<open>get_pipeline_summary\<close> twice and goes on, the second answers. The store gains the
  user Turn, the two Turns of the one recorded round-trip, which is the second execution
  (index 1 of the log), and the answer.
\<close>

theorem history_grows_by_appends_witness:
  "prefix (conversation_history state0)
     (conversation_history (snd (run_agent_turn_async_ps chained_env ''status of deals?'' state0)))
   \<and> (\<exists>r. rounds_logged chained_env
             (tool_calls (snd (run_agent_turn_async_ps chained_env ''status of deals?'' state0)))
             (length (tool_calls state0)) [r]
        \<and> rt_index r = 1
        \<and> conversation_history (snd (run_agent_turn_async_ps chained_env ''status of deals?'' state0))
            = conversation_history state0 @ [\<lparr>role = User, content = ''status of deals?''\<rparr>]
              @ round_turns chained_env r
              @ [\<lparr>role = Assistant, content = ''Two deals are open.''\<rparr>])
   \<and> conversation_history (snd (run_agent_turn_async_ps chained_env ''status of deals?'' state0))
       = [\<lparr>role = User, content = ''status of deals?''\<rparr>,
          \<lparr>role = Assistant, content = pipeline_request_text\<rparr>,
          \<lparr>role = System,
           content = ''Tool '' @ [CHR 0x27] @ ''get_pipeline_summary'' @ [CHR 0x27]
                     @ '' returned:\<newline>'' @ deals_text\<rparr>,
          \<lparr>role = Assistant, content = ''Two deals are open.''\<rparr>]
   \<and> tool_calls (snd (run_agent_turn_async_ps chained_env ''status of deals?'' state0))
       = [(JStr ''get_pipeline_summary'', JObj []), (JStr ''get_pipeline_summary'', JObj [])]"
proof -
  let ?R = "run_agent_turn_async_ps chained_env ''status of deals?'' state0"
  have r: "fst ?R = Inr ''Two deals are open.''"
    by (simp add: chained_run)
  have t: "tool_calls (snd ?R)
      = [(JStr ''get_pipeline_summary'', JObj []), (JStr ''get_pipeline_summary'', JObj [])]"
    by (simp add: chained_run)
  have h: "conversation_history (snd ?R)
       = [\<lparr>role = User, content = ''status of deals?''\<rparr>,
          \<lparr>role = Assistant, content = pipeline_request_text\<rparr>,
          \<lparr>role = System,
           content = ''Tool '' @ [CHR 0x27] @ ''get_pipeline_summary'' @ [CHR 0x27]
                     @ '' returned:\<newline>'' @ deals_text\<rparr>,
          \<lparr>role = Assistant, content = ''Two deals are open.''\<rparr>]"
    by (simp add: chained_run tool_returned_text_def fmt_def)
  from history_grows_by_appends [of state0 chained_env "''status of deals?''"]
    status_not_override r
  obtain rs where p: "prefix (conversation_history state0) (conversation_history (snd ?R))"
    and l: "rounds_logged chained_env (tool_calls (snd ?R)) (length (tool_calls state0)) rs"
    and c: "conversation_history (snd ?R)
        = conversation_history state0 @ [\<lparr>role = User, content = ''status of deals?''\<rparr>]
          @ concat (map (round_turns chained_env) rs)
          @ [\<lparr>role = Assistant, content = ''Two deals are open.''\<rparr>]"
    by blast
  from c have "length (conversation_history (snd ?R))
      = length (conversation_history state0) + 2 + length (concat (map (round_turns chained_env) rs))"
    by simp
  moreover have "length (conversation_history state0) = 0" by (simp add: state0_def)
  ultimately have "length rs = 1"
    by (simp add: h length_round_turns)
  then obtain r where rs: "rs = [r]" by (cases rs) auto
  have "length (tool_calls state0) = 0" by (simp add: state0_def)
  with l rs t have idx: "rt_index r = 1" by auto
  from l rs have l': "rounds_logged chained_env (tool_calls (snd ?R)) (length (tool_calls state0)) [r]"
    by simp
  from c rs have c': "conversation_history (snd ?R)
        = conversation_history state0 @ [\<lparr>role = User, content = ''status of deals?''\<rparr>]
          @ round_turns chained_env r
          @ [\<lparr>role = Assistant, content = ''Two deals are open.''\<rparr>]"
    by simp
  from l' idx c' have ex: "\<exists>r. rounds_logged chained_env (tool_calls (snd ?R))
             (length (tool_calls state0)) [r]
        \<and> rt_index r = 1
        \<and> conversation_history (snd ?R)
            = conversation_history state0 @ [\<lparr>role = User, content = ''status of deals?''\<rparr>]
              @ round_turns chained_env r
              @ [\<lparr>role = Assistant, content = ''Two deals are open.''\<rparr>]"
    by blast
  show ?thesis by (intro conjI p ex h t)
qed

section \<open>UWAgent: one tool round\<close>




end
